theory Spec2Isabelle
  imports Complex_Main
begin

section \<open>JavaScript values\<close>

text \<open>
  The worker is JavaScript. A JavaScript string is a sequence of UTF-16 code units, modelled
  as a list of natural numbers; \<open>str\<close> embeds an ASCII literal of the source.
\<close>

type_synonym jsstring = "nat list"

definition str :: "string \<Rightarrow> jsstring" where
  "str s = map of_char s"

text \<open>
  A JavaScript number is an IEEE double: NaN, the two infinities, or a finite value. Every
  finite double is a rational and the comparison of two finite doubles is the comparison
  of their values (\<open>-0\<close> and \<open>+0\<close> compare equal), so finite numbers are carried as
  rationals. A comparison with NaN on either side is false.
\<close>

datatype jsnum = NaN | NInf | Fin rat | PInf

fun js_le :: "jsnum \<Rightarrow> jsnum \<Rightarrow> bool" where
  "js_le NaN _ = False"
| "js_le _ NaN = False"
| "js_le NInf _ = True"
| "js_le _ PInf = True"
| "js_le (Fin a) (Fin b) = (a \<le> b)"
| "js_le _ _ = False"

definition js_ge :: "jsnum \<Rightarrow> jsnum \<Rightarrow> bool" where
  "js_ge a b = js_le b a"

fun js_lt :: "jsnum \<Rightarrow> jsnum \<Rightarrow> bool" where
  "js_lt NaN _ = False"
| "js_lt _ NaN = False"
| "js_lt _ NInf = False"
| "js_lt PInf _ = False"
| "js_lt (Fin a) (Fin b) = (a < b)"
| "js_lt _ _ = True"

text \<open>
  The values that reach the worker: \<open>undefined\<close> (an absent property) and what
  \<open>JSON.parse\<close> produces. An object is the list of its own properties.
\<close>

datatype jsval =
    Undefined
  | JNull
  | JBool bool
  | JNum jsnum
  | JStr jsstring
  | JArr "jsval list"
  | JObj "(jsstring \<times> jsval) list"

datatype exn = TypeError | RangeError | Error jsstring | NetworkError

text \<open>Truthiness, as \<open>!v\<close>, \<open>v || d\<close> and \<open>filter(Boolean)\<close> test it.\<close>

fun truthy :: "jsval \<Rightarrow> bool" where
  "truthy Undefined = False"
| "truthy JNull = False"
| "truthy (JBool b) = b"
| "truthy (JNum n) = (n \<noteq> NaN \<and> n \<noteq> Fin 0)"
| "truthy (JStr s) = (s \<noteq> [])"
| "truthy (JArr _) = True"
| "truthy (JObj _) = True"

text \<open>
  \<open>v.k\<close> for the property names the worker reads (none of them is defined on a
  prototype): the own property, else \<open>undefined\<close>. The source reads a property only of a
  value it has just tested to be truthy.
\<close>

fun get_prop :: "jsval \<Rightarrow> jsstring \<Rightarrow> jsval" where
  "get_prop (JObj kvs) k = (case map_of kvs k of None \<Rightarrow> Undefined | Some v \<Rightarrow> v)"
| "get_prop _ _ = Undefined"

subsection \<open>The parts of the platform the worker calls\<close>

text \<open>
  The request the worker sends to the document store. The source builds the URL as text,
  \<open>base + "/rest/" + encodeURIComponent(col) + ...\<close>, with each query value
  \<open>encodeURIComponent(JSON.stringify(v))\<close>, and the body as \<open>JSON.stringify(doc)\<close>;
  the model keeps the pieces before encoding: the path segments, the query as name and
  value pairs, and the document.
\<close>

record up_request =
  up_base :: jsstring
  up_segments :: "jsstring list"
  up_query :: "(jsstring \<times> jsval) list"
  up_method :: jsstring
  up_apikey :: jsstring
  up_body :: "jsval option"

text \<open>
  The store's answer: the status and the body text, \<open>None\<close> when reading the text fails
  (\<open>res.text().catch(() => "")\<close>).
\<close>

record up_response =
  up_status :: nat
  up_text :: "jsstring option"

text \<open>
  Built-ins whose results depend on double arithmetic, the locale, the clock or the network
  are parameters of the model: every theorem holds for each choice of them.
  \<open>global_fetch\<close> is the platform's \<open>fetch\<close>; it rejects (\<open>Inl\<close>) on a network error.
\<close>

record runtime =
  StringToNumber :: "jsstring \<Rightarrow> jsnum"
  NumberToString :: "jsnum \<Rightarrow> jsstring"
  JSON_parse :: "jsstring \<Rightarrow> jsval option"
  localeCompare :: "jsstring \<Rightarrow> jsstring \<Rightarrow> int"
  global_fetch :: "up_request \<Rightarrow> exn + up_response"
  now_iso :: jsstring

subsection \<open>Coercions\<close>

fun sequence :: "('e + 'a) list \<Rightarrow> 'e + 'a list" where
  "sequence [] = Inr []"
| "sequence (Inl e # _) = Inl e"
| "sequence (Inr a # rs) = (case sequence rs of Inl e \<Rightarrow> Inl e | Inr as \<Rightarrow> Inr (a # as))"

fun join :: "jsstring \<Rightarrow> jsstring list \<Rightarrow> jsstring" where
  "join sep [] = []"
| "join sep [s] = s"
| "join sep (s # t) = s @ sep @ join sep t"

text \<open>
  \<open>String(v)\<close>. An array is joined with commas, \<open>null\<close> and \<open>undefined\<close> elements
  giving the empty string. An object parsed from JSON has no callable property of its own:
  with an own \<open>toString\<close> property the conversion finds no method to call and throws a
  TypeError; without one it inherits \<open>Object.prototype.toString\<close>.
\<close>

fun ToString :: "runtime \<Rightarrow> jsval \<Rightarrow> exn + jsstring" where
  "ToString rt Undefined = Inr (str ''undefined'')"
| "ToString rt JNull = Inr (str ''null'')"
| "ToString rt (JBool b) = Inr (if b then str ''true'' else str ''false'')"
| "ToString rt (JNum n) = Inr (NumberToString rt n)"
| "ToString rt (JStr s) = Inr s"
| "ToString rt (JArr xs) =
     (case sequence (map (\<lambda>x. if x = Undefined \<or> x = JNull then Inr [] else ToString rt x) xs) of
        Inl e \<Rightarrow> Inl e
      | Inr ss \<Rightarrow> Inr (join (str '','') ss))"
| "ToString rt (JObj kvs) =
     (if str ''toString'' \<in> fst ` set kvs then Inl TypeError else Inr (str ''[object Object]''))"

text \<open>\<open>Number(v)\<close>: an array or object is first converted to a string.\<close>

fun Number :: "runtime \<Rightarrow> jsval \<Rightarrow> exn + jsnum" where
  "Number rt Undefined = Inr NaN"
| "Number rt JNull = Inr (Fin 0)"
| "Number rt (JBool b) = Inr (Fin (if b then 1 else 0))"
| "Number rt (JNum n) = Inr n"
| "Number rt (JStr s) = Inr (StringToNumber rt s)"
| "Number rt v = (case ToString rt v of Inl e \<Rightarrow> Inl e | Inr s \<Rightarrow> Inr (StringToNumber rt s))"

text \<open>
  Sequencing of a step that may throw: \<open>andThen m f\<close> runs \<open>f\<close> on the value of \<open>m\<close>,
  or propagates the exception.
\<close>

definition andThen :: "'e + 'a \<Rightarrow> ('a \<Rightarrow> 'e + 'b) \<Rightarrow> 'e + 'b" where
  "andThen m f = (case m of Inl e \<Rightarrow> Inl e | Inr a \<Rightarrow> f a)"

section \<open>The classification function\<close>

record time =
  code :: jsstring
  label :: jsstring

text \<open>\<open>computeTIME\<close> of the worker.\<close>

definition computeTIME :: "runtime \<Rightarrow> jsval \<Rightarrow> jsval \<Rightarrow> exn + time" where
  "computeTIME rt technicalFit functionalFit =
     andThen (Number rt technicalFit) (\<lambda>t.
     andThen (Number rt functionalFit) (\<lambda>f.
       (let techHigh = js_ge t (Fin 4);
            funcHigh = js_ge f (Fin 4)
        in if techHigh \<and> funcHigh then Inr \<lparr>code = str ''I'', label = str ''Invest''\<rparr>
           else if \<not> techHigh \<and> funcHigh then Inr \<lparr>code = str ''M'', label = str ''Migrate''\<rparr>
           else if techHigh \<and> \<not> funcHigh then Inr \<lparr>code = str ''T'', label = str ''Tolerate''\<rparr>
           else Inr \<lparr>code = str ''E'', label = str ''Eliminate''\<rparr>)))"

text \<open>\<open>computeTIME\<close> of the script in the page the worker serves.\<close>

definition computeTIME_client :: "runtime \<Rightarrow> jsval \<Rightarrow> jsval \<Rightarrow> exn + time" where
  "computeTIME_client rt tech func =
     andThen (Number rt tech) (\<lambda>t.
     andThen (Number rt func) (\<lambda>f.
       (let techHigh = js_ge t (Fin 4);
            funcHigh = js_ge f (Fin 4)
        in if techHigh \<and> funcHigh then Inr \<lparr>code = str ''I'', label = str ''Invest''\<rparr>
           else if \<not> techHigh \<and> funcHigh then Inr \<lparr>code = str ''M'', label = str ''Migrate''\<rparr>
           else if techHigh \<and> \<not> funcHigh then Inr \<lparr>code = str ''T'', label = str ''Tolerate''\<rparr>
           else Inr \<lparr>code = str ''E'', label = str ''Eliminate''\<rparr>)))"

section \<open>Requests, responses and configuration\<close>

text \<open>
  The incoming request as the worker reads it: the method, the path of the URL, the query
  parameters in order, the headers under their lower-case names, and the outcome of
  \<open>req.json()\<close>, \<open>None\<close> when that promise rejects (a body that is not JSON).
\<close>

record request =
  req_method :: jsstring
  pathname :: jsstring
  searchParams :: "(jsstring \<times> jsstring) list"
  headers :: "(jsstring \<times> jsstring) list"
  json_body :: "jsval option"

text \<open>
  A response: \<open>json(obj, status)\<close> carries \<open>JSON.stringify(obj)\<close>, kept as the value;
  the other two are the plain-text answer and the HTML page.
\<close>

datatype payload = JsonBody jsval | TextBody jsstring | HtmlPage

record response =
  status :: nat
  payload :: payload

text \<open>
  What handling one request does: the requests sent to the store, in order, and then
  either a response or an exception that nothing caught.
\<close>

type_synonym outcome = "up_request list \<times> (exn + response)"

text \<open>The environment bindings: a name is bound to a string or absent.\<close>

type_synonym env = "jsstring \<Rightarrow> jsstring option"

definition env_or_empty :: "env \<Rightarrow> jsstring \<Rightarrow> jsstring" where
  "env_or_empty env k = (case env k of None \<Rightarrow> [] | Some s \<Rightarrow> s)"

text \<open>
  \<open>json(obj, status)\<close> is \<open>new Response(JSON.stringify(obj, null, 2), {status, headers})\<close>.
  The constructor throws a RangeError for a status outside 200 to 599 and, the body being
  a string, a TypeError for a status that allows no body (204, 205, 304).
\<close>

definition json :: "jsval \<Rightarrow> nat \<Rightarrow> exn + response" where
  "json obj st =
     (if st < 200 \<or> 599 < st then Inl RangeError
      else if st = 204 \<or> st = 205 \<or> st = 304 then Inl TypeError
      else Inr \<lparr>status = st, payload = JsonBody obj\<rparr>)"

definition requireEnv :: "env \<Rightarrow> jsstring list \<Rightarrow> exn + unit" where
  "requireEnv env keys =
     (let missing = filter (\<lambda>k. env_or_empty env k = []) keys
      in if missing \<noteq> [] then Inl (Error (str ''Missing env vars: '' @ join (str '', '') missing))
         else Inr ())"

subsection \<open>String helpers\<close>

text \<open>The code units that \<open>trim\<close> removes: ECMAScript white space and line terminators.\<close>

definition isWhiteSpace :: "nat \<Rightarrow> bool" where
  "isWhiteSpace c =
     (c \<in> {9, 10, 11, 12, 13, 32, 160, 5760, 8232, 8233, 8239, 8287, 12288, 65279}
      \<or> (8192 \<le> c \<and> c \<le> 8202))"

definition trim :: "jsstring \<Rightarrow> jsstring" where
  "trim s = rev (dropWhile isWhiteSpace (rev (dropWhile isWhiteSpace s)))"

definition startsWith :: "jsstring \<Rightarrow> jsstring \<Rightarrow> bool" where
  "startsWith s p = (take (length p) s = p)"

fun split :: "nat \<Rightarrow> jsstring \<Rightarrow> jsstring list" where
  "split sep [] = [[]]"
| "split sep (c # cs) =
     (if c = sep then [] # split sep cs
      else (case split sep cs of [] \<Rightarrow> [[c]] | w # ws \<Rightarrow> (c # w) # ws))"

text \<open>\<open>s.replace(/\/$/, "")\<close>: one trailing slash is removed.\<close>

definition strip_slash :: "jsstring \<Rightarrow> jsstring" where
  "strip_slash s = (if s \<noteq> [] \<and> last s = 47 then butlast s else s)"

text \<open>\<open>const S = (v) => (v == null ? "" : String(v).trim())\<close>.\<close>

definition S :: "runtime \<Rightarrow> jsval \<Rightarrow> exn + jsstring" where
  "S rt v = (if v = JNull \<or> v = Undefined then Inr []
             else andThen (ToString rt v) (\<lambda>s. Inr (trim s)))"

text \<open>\<open>x || null\<close> for a string \<open>x\<close>.\<close>

definition or_null :: "jsstring \<Rightarrow> jsval" where
  "or_null s = (if s \<noteq> [] then JStr s else JNull)"

text \<open>\<open>(url.searchParams.get(k) || "").trim()\<close>.\<close>

definition param :: "request \<Rightarrow> jsstring \<Rightarrow> jsstring" where
  "param req k = trim (case map_of (searchParams req) k of None \<Rightarrow> [] | Some v \<Rightarrow> v)"

text \<open>
  \<open>parts = url.pathname.split("/").filter(Boolean); id = parts[2] || null\<close>.
\<close>

definition path_id :: "jsstring \<Rightarrow> jsstring option" where
  "path_id p =
     (let parts = filter (\<lambda>s. s \<noteq> []) (split 47 p)
      in if 2 < length parts then Some (parts ! 2) else None)"

section \<open>The store adapter\<close>

definition res_ok :: "up_response \<Rightarrow> bool" where
  "res_ok res = (200 \<le> up_status res \<and> up_status res \<le> 299)"

text \<open>
  The body of the store's answer as \<open>restdbFetch\<close> reads it: parsed as JSON, the raw
  text when it does not parse, \<open>null\<close> when it is empty.
\<close>

definition response_data :: "runtime \<Rightarrow> up_response \<Rightarrow> jsval" where
  "response_data rt res =
     (let text = (case up_text res of None \<Rightarrow> [] | Some t \<Rightarrow> t)
      in if text \<noteq> [] then (case JSON_parse rt text of None \<Rightarrow> JStr text | Some v \<Rightarrow> v)
         else JNull)"

text \<open>
  \<open>restdbFetch(env, pathWithQuery, init)\<close>: throws when a required binding is missing,
  sends one request, and returns the response with its data.
\<close>

definition restdbFetch ::
  "runtime \<Rightarrow> env \<Rightarrow> jsstring list \<Rightarrow> (jsstring \<times> jsval) list \<Rightarrow> jsstring \<Rightarrow> jsval option
     \<Rightarrow> up_request list \<times> (exn + up_response \<times> jsval)" where
  "restdbFetch rt env segments query method body =
     (case requireEnv env [str ''RESTDB_BASE'', str ''RESTDB_COLLECTION'', str ''RESTDB_API_KEY''] of
        Inl e \<Rightarrow> ([], Inl e)
      | Inr _ \<Rightarrow>
          (let base = strip_slash (env_or_empty env (str ''RESTDB_BASE''));
               r = \<lparr>up_base = base, up_segments = segments, up_query = query,
                    up_method = method,
                    up_apikey = env_or_empty env (str ''RESTDB_API_KEY''),
                    up_body = body\<rparr>
           in case global_fetch rt r of
                Inl e \<Rightarrow> ([r], Inl e)
              | Inr res \<Rightarrow> ([r], Inr (res, response_data rt res))))"

section \<open>The handlers\<close>

text \<open>A step that may throw before any request to the store has been sent.\<close>

definition orThrow :: "exn + 'a \<Rightarrow> ('a \<Rightarrow> outcome) \<Rightarrow> outcome" where
  "orThrow m f = (case m of Inl e \<Rightarrow> ([], Inl e) | Inr a \<Rightarrow> f a)"

text \<open>
  \<open>handleItems\<close> has three branches; each is a definition of its own here, named after
  the method it serves. The first is \<open>GET /api/items\<close>.
\<close>

definition handleItems_GET :: "runtime \<Rightarrow> env \<Rightarrow> request \<Rightarrow> jsstring \<Rightarrow> outcome" where
  "handleItems_GET rt env req baseCol =
     (let customerName = param req (str ''customerName'');
          customerId = param req (str ''customerId'');
          category = param req (str ''category'');
          q = (if customerName \<noteq> [] then [(str ''customerName'', JStr customerName)] else [])
            @ (if customerName = [] \<and> customerId \<noteq> [] then [(str ''customerId'', JStr customerId)] else [])
            @ (if category \<noteq> [] then [(str ''category'', JStr category)] else []);
          sort = JObj [(str ''createdAt'', JNum (Fin (- 1)))];
          qParam = (if q \<noteq> [] then [(str ''q'', JObj q), (str ''sort'', sort)]
                    else [(str ''sort'', sort)])
      in case restdbFetch rt env [str ''rest'', baseCol] qParam (str ''GET'') None of
           (calls, Inl e) \<Rightarrow> (calls, Inl e)
         | (calls, Inr (res, data)) \<Rightarrow>
             (if \<not> res_ok res then (calls, json (JObj [(str ''ok'', JBool False), (str ''error'', data)]) (up_status res))
              else (calls, json (JObj [(str ''ok'', JBool True),
                       (str ''items'', (case data of JArr xs \<Rightarrow> data | _ \<Rightarrow> JArr []))]) 200)))"

text \<open>\<open>POST /api/items\<close>.\<close>

definition handleItems_POST :: "runtime \<Rightarrow> env \<Rightarrow> request \<Rightarrow> jsstring \<Rightarrow> outcome" where
  "handleItems_POST rt env req baseCol =
     (let body = (case json_body req of None \<Rightarrow> JNull | Some b \<Rightarrow> b) in
      if \<not> truthy body then ([], json (JObj [(str ''ok'', JBool False), (str ''error'', JStr (str ''Invalid JSON body''))]) 400)
      else
        orThrow (Number rt (get_prop body (str ''technicalFit''))) (\<lambda>technicalFit.
        orThrow (Number rt (get_prop body (str ''functionalFit''))) (\<lambda>functionalFit.
        if \<not> (js_ge technicalFit (Fin 1) \<and> js_le technicalFit (Fin 5))
        then ([], json (JObj [(str ''ok'', JBool False), (str ''error'', JStr (str ''technicalFit must be 1-5''))]) 400)
        else if \<not> (js_ge functionalFit (Fin 1) \<and> js_le functionalFit (Fin 5))
        then ([], json (JObj [(str ''ok'', JBool False), (str ''error'', JStr (str ''functionalFit must be 1-5''))]) 400)
        else
          orThrow (S rt (get_prop body (str ''customerName''))) (\<lambda>customerName.
          orThrow (S rt (get_prop body (str ''customerId''))) (\<lambda>customerId.
          orThrow (S rt (get_prop body (str ''category''))) (\<lambda>category.
          orThrow (S rt (get_prop body (str ''solution''))) (\<lambda>solution.
          orThrow (S rt (get_prop body (str ''vendor''))) (\<lambda>vendor.
          orThrow (S rt (get_prop body (str ''notes''))) (\<lambda>notes.
          orThrow (S rt (get_prop body (str ''dateImplemented''))) (\<lambda>dateImplemented.
          orThrow (S rt (get_prop body (str ''contractExpiration''))) (\<lambda>contractExpiration.
          if customerName = [] \<or> category = [] \<or> solution = []
          then ([], json (JObj [(str ''ok'', JBool False), (str ''error'', JStr (str ''customerName, category, and solution are required''))]) 400)
          else
            orThrow (computeTIME rt (JNum technicalFit) (JNum functionalFit)) (\<lambda>time.
            (let now = now_iso rt;
                 doc = JObj [
                   (str ''customerName'', JStr customerName),
                   (str ''customerId'', or_null customerId),
                   (str ''category'', JStr category),
                   (str ''solution'', JStr solution),
                   (str ''vendor'', JStr vendor),
                   (str ''notes'', JStr notes),
                   (str ''technicalFit'', JNum technicalFit),
                   (str ''functionalFit'', JNum functionalFit),
                   (str ''timeCode'', JStr (code time)),
                   (str ''timeLabel'', JStr (label time)),
                   (str ''dateImplemented'', or_null dateImplemented),
                   (str ''contractExpiration'', or_null contractExpiration),
                   (str ''createdAt'', JStr now),
                   (str ''updatedAt'', JStr now)]
             in case restdbFetch rt env [str ''rest'', baseCol] [] (str ''POST'') (Some doc) of
                  (calls, Inl e) \<Rightarrow> (calls, Inl e)
                | (calls, Inr (res, data)) \<Rightarrow>
                    (if \<not> res_ok res then (calls, json (JObj [(str ''ok'', JBool False), (str ''error'', data)]) (up_status res))
                     else (calls, json (JObj [(str ''ok'', JBool True),
                              (str ''item'', data)]) 200)))))))))))))))"

text \<open>\<open>DELETE /api/items/:id\<close>.\<close>

definition handleItems_DELETE :: "runtime \<Rightarrow> env \<Rightarrow> jsstring \<Rightarrow> jsstring \<Rightarrow> outcome" where
  "handleItems_DELETE rt env baseCol id' =
     (case restdbFetch rt env [str ''rest'', baseCol, id'] [] (str ''DELETE'') None of
        (calls, Inl e) \<Rightarrow> (calls, Inl e)
      | (calls, Inr (res, data)) \<Rightarrow>
          (if \<not> res_ok res then (calls, json (JObj [(str ''ok'', JBool False), (str ''error'', data)]) (up_status res))
           else (calls, json (JObj [(str ''ok'', JBool True)]) 200)))"

definition handleItems :: "runtime \<Rightarrow> env \<Rightarrow> request \<Rightarrow> outcome" where
  "handleItems rt env req =
     (let baseCol = env_or_empty env (str ''RESTDB_COLLECTION'') in
      if baseCol = []
      then ([], json (JObj [(str ''ok'', JBool False), (str ''error'', JStr (str ''Missing RESTDB_COLLECTION''))]) 500)
      else
        (let id' = path_id (pathname req) in
         if req_method req = str ''GET'' \<and> id' = None then handleItems_GET rt env req baseCol
         else if req_method req = str ''POST'' \<and> id' = None then handleItems_POST rt env req baseCol
         else if req_method req = str ''DELETE'' \<and> id' \<noteq> None
           then handleItems_DELETE rt env baseCol (the id')
         else ([], json (JObj [(str ''ok'', JBool False), (str ''error'', JStr (str ''Method not allowed''))]) 405)))"

subsection \<open>The customer summary\<close>

text \<open>
  A JavaScript \<open>Map\<close> keeps its keys in insertion order; \<open>set\<close> on a key that is
  present replaces the value in place.
\<close>

fun map_set :: "('k \<times> 'v) list \<Rightarrow> 'k \<Rightarrow> 'v \<Rightarrow> ('k \<times> 'v) list" where
  "map_set [] k v = [(k, v)]"
| "map_set ((k', v') # m) k v = (if k' = k then (k, v) # m else (k', v') # map_set m k v)"

text \<open>
  \<open>name = (it && it.customerName ? String(it.customerName).trim() : "")\<close>.
\<close>

definition item_name :: "runtime \<Rightarrow> jsval \<Rightarrow> exn + jsstring" where
  "item_name rt it =
     (if truthy it \<and> truthy (get_prop it (str ''customerName''))
      then andThen (ToString rt (get_prop it (str ''customerName''))) (\<lambda>s. Inr (trim s))
      else Inr [])"

text \<open>The loop \<open>for (const it of items)\<close>, with the map as accumulator.\<close>

fun count_names :: "runtime \<Rightarrow> jsval list \<Rightarrow> (jsstring \<times> nat) list \<Rightarrow> exn + (jsstring \<times> nat) list" where
  "count_names rt [] m = Inr m"
| "count_names rt (it # items) m =
     (case item_name rt it of
        Inl e \<Rightarrow> Inl e
      | Inr name \<Rightarrow>
          (if name = [] then count_names rt items m
           else count_names rt items
                  (map_set m name ((case map_of m name of None \<Rightarrow> 0 | Some c \<Rightarrow> c) + 1))))"

text \<open>
  \<open>Array.prototype.sort\<close> with a comparison function: the sort is stable, and for a
  consistent comparison function its result is the one of any stable sort. Insertion from
  the right is one.
\<close>

fun js_insert :: "('a \<Rightarrow> 'a \<Rightarrow> int) \<Rightarrow> 'a \<Rightarrow> 'a list \<Rightarrow> 'a list" where
  "js_insert cmp x [] = [x]"
| "js_insert cmp x (y # ys) = (if cmp x y \<le> 0 then x # y # ys else y # js_insert cmp x ys)"

definition js_sort :: "('a \<Rightarrow> 'a \<Rightarrow> int) \<Rightarrow> 'a list \<Rightarrow> 'a list" where
  "js_sort cmp xs = foldr (js_insert cmp) xs []"

definition handleCustomers :: "runtime \<Rightarrow> env \<Rightarrow> request \<Rightarrow> outcome" where
  "handleCustomers rt env req =
     (if req_method req \<noteq> str ''GET''
      then ([], json (JObj [(str ''ok'', JBool False), (str ''error'', JStr (str ''Method not allowed''))]) 405)
      else
        (let col = env_or_empty env (str ''RESTDB_COLLECTION'');
             fields = JObj [(str ''customerName'', JNum (Fin 1))];
             sort = JObj [(str ''customerName'', JNum (Fin 1))]
         in case restdbFetch rt env [str ''rest'', col]
                   [(str ''fields'', fields), (str ''sort'', sort)] (str ''GET'') None of
              (calls, Inl e) \<Rightarrow> (calls, Inl e)
            | (calls, Inr (res, data)) \<Rightarrow>
                (if \<not> res_ok res then (calls, json (JObj [(str ''ok'', JBool False), (str ''error'', data)]) (up_status res))
                 else
                   (let items = (case data of JArr xs \<Rightarrow> xs | _ \<Rightarrow> []) in
                    case count_names rt items [] of
                      Inl e \<Rightarrow> (calls, Inl e)
                    | Inr m \<Rightarrow>
                        (let customers =
                               js_sort (\<lambda>a b. localeCompare rt (fst a) (fst b)) m
                         in (calls, json (JObj [(str ''ok'', JBool True),
                               (str ''customers'', JArr (map (\<lambda>c. JObj [(str ''customerName'', JStr (fst c)),
                                 (str ''count'', JNum (Fin (of_nat (snd c))))]) customers))]) 200))))))"

subsection \<open>Routing\<close>

definition handleApi :: "runtime \<Rightarrow> env \<Rightarrow> request \<Rightarrow> outcome" where
  "handleApi rt env req =
     (if startsWith (pathname req) (str ''/api/items'') then handleItems rt env req
      else if pathname req = str ''/api/customers'' then handleCustomers rt env req
      else ([], json (JObj [(str ''ok'', JBool False), (str ''error'', JStr (str ''Not Found''))]) 404))"

text \<open>The worker's \<open>fetch\<close> handler, in the version that serves the customer summary.\<close>

definition fetch :: "runtime \<Rightarrow> env \<Rightarrow> request \<Rightarrow> outcome" where
  "fetch rt env req =
     (if pathname req = str ''/'' then ([], Inr \<lparr>status = 200, payload = HtmlPage\<rparr>)
      else if startsWith (pathname req) (str ''/api/'') then handleApi rt env req
      else ([], Inr \<lparr>status = 404, payload = TextBody (str ''Not Found'')\<rparr>))"

text \<open>
  The \<open>fetch\<close> handler of the earlier version of the worker (the one keyed by customer id),
  which has the token gate. The gate decides before \<open>handleItems\<close> of that version is
  called, so that handler is a parameter here.
\<close>

definition fetch_gated ::
  "(runtime \<Rightarrow> env \<Rightarrow> request \<Rightarrow> outcome) \<Rightarrow> runtime \<Rightarrow> env \<Rightarrow> request \<Rightarrow> outcome" where
  "fetch_gated handleItems0 rt env req =
     (if pathname req = str ''/'' then ([], Inr \<lparr>status = 200, payload = HtmlPage\<rparr>)
      else if startsWith (pathname req) (str ''/api/items'') then
        (if env_or_empty env (str ''APP_SHARED_TOKEN'') \<noteq> [] then
           (let token = (case map_of (headers req) (str ''x-app-token'') of
                           None \<Rightarrow> [] | Some t \<Rightarrow> t)
            in if token \<noteq> env_or_empty env (str ''APP_SHARED_TOKEN'')
               then ([], json (JObj [(str ''ok'', JBool False), (str ''error'', JStr (str ''Unauthorized''))]) 401)
               else handleItems0 rt env req)
         else handleItems0 rt env req)
      else ([], Inr \<lparr>status = 404, payload = TextBody (str ''Not Found'')\<rparr>))"

section \<open>Names used in the statements\<close>

text \<open>
  The string fields that the create branch converts with \<open>S\<close>, in the order of the source.
\<close>

definition text_fields :: "jsstring list" where
  "text_fields = [str ''customerName'', str ''customerId'', str ''category'', str ''solution'',
     str ''vendor'', str ''notes'', str ''dateImplemented'', str ''contractExpiration'']"

text \<open>
  The values whose conversion by \<open>String\<close>, \<open>Number\<close> or \<open>S\<close> completes: all but an
  object with an own \<open>toString\<close> property and an array that holds such a value.
\<close>

fun convertible :: "jsval \<Rightarrow> bool" where
  "convertible (JObj kvs) = (str ''toString'' \<notin> fst ` set kvs)"
| "convertible (JArr xs) = (\<forall>x\<in>set xs. convertible x)"
| "convertible _ = True"

section \<open>A concrete platform for the examples\<close>

text \<open>
  The closed examples below run the worker on a concrete platform. Its string-to-number
  conversion agrees with JavaScript's on the empty string and on strings of decimal
  digits, its comparison with \<open>localeCompare\<close> on strings of upper-case ASCII letters, and
  its parser with \<open>JSON.parse\<close> on the three texts its store returns; the examples
  convert, compare and parse no other strings, and convert no number to a string.
\<close>

definition demo_StringToNumber :: "jsstring \<Rightarrow> jsnum" where
  "demo_StringToNumber s =
     (if s = [] then Fin 0
      else if \<forall>c\<in>set s. 48 \<le> c \<and> c \<le> 57
        then Fin (of_nat (foldl (\<lambda>n c. 10 * n + (c - 48)) 0 s))
      else NaN)"

definition demo_compare :: "jsstring \<Rightarrow> jsstring \<Rightarrow> int" where
  "demo_compare a b = (if a = b then 0 else if (a, b) \<in> lexord {(x, y). x < y} then - 1 else 1)"

definition demo_store :: "up_request \<Rightarrow> exn + up_response" where
  \<open>demo_store r =
     (if up_method r = str ''POST'' then Inr \<lparr>up_status = 201, up_text = Some (str ''{"_id":"a1"}'')\<rparr>
      else if up_method r = str ''GET'' \<and> map_of (up_query r) (str ''fields'') \<noteq> None
        then Inr \<lparr>up_status = 200, up_text = Some (str ''[{"customerName":"BETA"},{"customerName":"ACME"},{"customerName":" BETA "},{}]'')\<rparr>
      else Inr \<lparr>up_status = 200, up_text = Some (str ''[]'')\<rparr>)\<close>

definition demo_parse :: "jsstring \<Rightarrow> jsval option" where
  \<open>demo_parse = map_of [
     (str ''[]'', JArr []),
     (str ''{"_id":"a1"}'', JObj [(str ''_id'', JStr (str ''a1''))]),
     (str ''[{"customerName":"BETA"},{"customerName":"ACME"},{"customerName":" BETA "},{}]'',
        JArr [JObj [(str ''customerName'', JStr (str ''BETA''))],
              JObj [(str ''customerName'', JStr (str ''ACME''))],
              JObj [(str ''customerName'', JStr (str '' BETA ''))],
              JObj []])]\<close>

definition demo_rt :: runtime where
  "demo_rt = \<lparr>
     StringToNumber = demo_StringToNumber,
     NumberToString = (\<lambda>n. str ''NaN''),
     JSON_parse = demo_parse,
     localeCompare = demo_compare,
     global_fetch = demo_store,
     now_iso = str ''2026-01-06T12:00:00.000Z''\<rparr>"

definition demo_env :: env where
  "demo_env = map_of [
     (str ''RESTDB_BASE'', str ''https://db.example/''),
     (str ''RESTDB_COLLECTION'', str ''techmatrix''),
     (str ''RESTDB_API_KEY'', str ''k1'')]"

definition create_request :: "jsval \<Rightarrow> request" where
  "create_request b = \<lparr>req_method = str ''POST'', pathname = str ''/api/items'',
     searchParams = [], headers = [], json_body = Some b\<rparr>"

definition body_override :: jsval where
  "body_override = JObj [
     (str ''customerName'', JStr (str '' ACME '')),
     (str ''category'', JStr (str ''AI'')),
     (str ''solution'', JStr (str ''TEAMS'')),
     (str ''technicalFit'', JNum (Fin 2)),
     (str ''functionalFit'', JNum (Fin 5)),
     (str ''timeCode'', JStr (str ''I'')),
     (str ''timeLabel'', JStr (str ''Invest''))]"

definition body_plain :: jsval where
  "body_plain = JObj [
     (str ''customerName'', JStr (str '' ACME '')),
     (str ''category'', JStr (str ''AI'')),
     (str ''solution'', JStr (str ''TEAMS'')),
     (str ''technicalFit'', JNum (Fin 2)),
     (str ''functionalFit'', JNum (Fin 5))]"

definition ratings_body :: "rat \<Rightarrow> rat \<Rightarrow> jsval" where
  "ratings_body t f = JObj [
     (str ''customerName'', JStr (str ''ACME'')),
     (str ''category'', JStr (str ''AI'')),
     (str ''solution'', JStr (str ''   '')),
     (str ''technicalFit'', JNum (Fin t)),
     (str ''functionalFit'', JNum (Fin f))]"

definition demo_doc :: jsval where
  "demo_doc = JObj [
     (str ''customerName'', JStr (str ''ACME'')),
     (str ''customerId'', JNull),
     (str ''category'', JStr (str ''AI'')),
     (str ''solution'', JStr (str ''TEAMS'')),
     (str ''vendor'', JStr []),
     (str ''notes'', JStr []),
     (str ''technicalFit'', JNum (Fin 2)),
     (str ''functionalFit'', JNum (Fin 5)),
     (str ''timeCode'', JStr (str ''M'')),
     (str ''timeLabel'', JStr (str ''Migrate'')),
     (str ''dateImplemented'', JNull),
     (str ''contractExpiration'', JNull),
     (str ''createdAt'', JStr (str ''2026-01-06T12:00:00.000Z'')),
     (str ''updatedAt'', JStr (str ''2026-01-06T12:00:00.000Z''))]"

definition demo_call :: up_request where
  "demo_call = \<lparr>up_base = str ''https://db.example'',
     up_segments = [str ''rest'', str ''techmatrix''], up_query = [],
     up_method = str ''POST'', up_apikey = str ''k1'', up_body = Some demo_doc\<rparr>"

definition token_env :: env where
  "token_env = demo_env(str ''APP_SHARED_TOKEN'' \<mapsto> str ''s3cret'')"

definition collection_only_env :: env where
  "collection_only_env = map_of [(str ''RESTDB_COLLECTION'', str ''techmatrix'')]"

definition get_request :: "jsstring \<Rightarrow> (jsstring \<times> jsstring) list \<Rightarrow> request" where
  "get_request p q = \<lparr>req_method = str ''GET'', pathname = p, searchParams = q,
     headers = [], json_body = None\<rparr>"

definition customers_query :: "(jsstring \<times> jsval) list" where
  "customers_query = [(str ''fields'', JObj [(str ''customerName'', JNum (Fin 1))]),
                      (str ''sort'', JObj [(str ''customerName'', JNum (Fin 1))])]"

definition customers_call :: up_request where
  "customers_call = \<lparr>up_base = str ''https://db.example'',
     up_segments = [str ''rest'', str ''techmatrix''], up_query = customers_query,
     up_method = str ''GET'', up_apikey = str ''k1'', up_body = None\<rparr>"

definition customers_answer :: up_response where
  \<open>customers_answer = \<lparr>up_status = 200, up_text = Some (str ''[{"customerName":"BETA"},{"customerName":"ACME"},{"customerName":" BETA "},{}]'')\<rparr>\<close>

definition stored_items :: "jsval list" where
  "stored_items = [JObj [(str ''customerName'', JStr (str ''BETA''))],
              JObj [(str ''customerName'', JStr (str ''ACME''))],
              JObj [(str ''customerName'', JStr (str '' BETA ''))],
              JObj []]"

definition legacy_call :: up_request where
  "legacy_call = \<lparr>up_base = str ''https://db.example'',
     up_segments = [str ''rest'', str ''techmatrix''],
     up_query = [(str ''q'', JObj [(str ''customerId'', JStr (str ''C42''))]),
                 (str ''sort'', JObj [(str ''createdAt'', JNum (Fin (- 1)))])],
     up_method = str ''GET'', up_apikey = str ''k1'', up_body = None\<rparr>"

section \<open>Properties of the classification\<close>

lemma str_inject [simp]: "str a = str b \<longleftrightarrow> a = b"
  by (simp add: str_def inj_map_eq_map inj_on_def)

lemma str_eq_Nil [simp]: "str s = [] \<longleftrightarrow> s = []" "[] = str s \<longleftrightarrow> s = []"
  by (auto simp: str_def)

subsection \<open>When a conversion completes\<close>

lemma sequence_Inr:
  "(\<exists>ss. sequence rs = Inr ss) \<longleftrightarrow> (\<forall>r\<in>set rs. \<exists>s. r = Inr s)"
proof (induction rs)
  case Nil
  then show ?case by simp
next
  case (Cons r rs)
  then show ?case
    by (cases r) (auto split: sum.splits)
qed

lemma ToString_completes: "(\<exists>s. ToString rt v = Inr s) \<longleftrightarrow> convertible v"
proof (induction v)
  case (JArr xs)
  have "(\<exists>s. ToString rt (JArr xs) = Inr s)
      \<longleftrightarrow> (\<exists>ss. sequence (map (\<lambda>x. if x = Undefined \<or> x = JNull then Inr [] else ToString rt x) xs) = Inr ss)"
    by (auto split: sum.splits)
  also have "\<dots> \<longleftrightarrow> (\<forall>x\<in>set xs. \<exists>s. (if x = Undefined \<or> x = JNull then Inr [] else ToString rt x) = Inr s)"
    unfolding sequence_Inr set_map by blast
  also have "\<dots> \<longleftrightarrow> (\<forall>x\<in>set xs. convertible x)"
    using JArr by (intro ball_cong refl) auto
  finally show ?case by simp
qed auto

lemma ToString_throws_TypeError: "ToString rt v = Inl e \<Longrightarrow> e = TypeError"
proof (induction v arbitrary: e)
  case (JArr xs)
  have "sequence rs = Inl e \<Longrightarrow> Inl e \<in> set rs" for rs :: "(exn + jsstring) list"
  proof (induction rs)
    case Nil
    then show ?case by simp
  next
    case (Cons r rs)
    then show ?case by (cases r) (auto split: sum.splits)
  qed
  note in_set = this
  from JArr.prems have "sequence (map (\<lambda>x. if x = Undefined \<or> x = JNull then Inr [] else ToString rt x) xs) = Inl e"
    by (simp split: sum.splits)
  from in_set [OF this] obtain x where "x \<in> set xs" and "ToString rt x = Inl e"
    by (auto split: if_splits)
  then show ?case
    by (rule JArr.IH)
qed (auto split: if_splits)

lemma Number_completes: "(\<exists>n. Number rt v = Inr n) \<longleftrightarrow> convertible v"
  using ToString_completes [of rt v] by (cases v) (auto split: sum.splits)

lemma S_completes: "(\<exists>s. S rt v = Inr s) \<longleftrightarrow> convertible v"
  using ToString_completes [of rt v] by (cases v) (auto simp: S_def andThen_def split: sum.splits)

subsection \<open>The four quadrants\<close>

lemma js_lt_not_ge: "a \<noteq> NaN \<Longrightarrow> js_lt a (Fin 4) \<longleftrightarrow> \<not> js_ge a (Fin 4)"
  by (cases a) (auto simp: js_ge_def)

text \<open>
  C1. Whenever the two inputs coerce to numbers \<open>a\<close> and \<open>b\<close>, \<open>computeTIME\<close> returns
  the pair of the quadrant that the inclusive threshold 4 selects: Invest when both are
  at least 4, Migrate when only the functional fit is, Tolerate when only the technical fit
  is, Eliminate otherwise. For a number, not being at least 4 is being below 4; NaN is not
  at least 4, so an input that coerces to NaN counts as low. The ratings the worker and the
  page pass are numbers and strings, which always coerce. The documented examples
  (5,5), (2,5), (5,2), (1,1), (4,4) and (3,4) give Invest, Migrate, Tolerate, Eliminate,
  Invest and Migrate.
\<close>

theorem computeTIME_quadrants:
  assumes "Number rt t = Inr a" and "Number rt f = Inr b"
  shows "(js_ge a (Fin 4) \<and> js_ge b (Fin 4) \<longrightarrow>
            computeTIME rt t f = Inr \<lparr>code = str ''I'', label = str ''Invest''\<rparr>)
       \<and> (\<not> js_ge a (Fin 4) \<and> js_ge b (Fin 4) \<longrightarrow>
            computeTIME rt t f = Inr \<lparr>code = str ''M'', label = str ''Migrate''\<rparr>)
       \<and> (js_ge a (Fin 4) \<and> \<not> js_ge b (Fin 4) \<longrightarrow>
            computeTIME rt t f = Inr \<lparr>code = str ''T'', label = str ''Tolerate''\<rparr>)
       \<and> (\<not> js_ge a (Fin 4) \<and> \<not> js_ge b (Fin 4) \<longrightarrow>
            computeTIME rt t f = Inr \<lparr>code = str ''E'', label = str ''Eliminate''\<rparr>)
       \<and> (a \<noteq> NaN \<longrightarrow> (\<not> js_ge a (Fin 4) \<longleftrightarrow> js_lt a (Fin 4)))
       \<and> (b \<noteq> NaN \<longrightarrow> (\<not> js_ge b (Fin 4) \<longleftrightarrow> js_lt b (Fin 4)))
       \<and> \<not> js_ge NaN (Fin 4)
       \<and> Number rt (JNum n) = Inr n \<and> Number rt (JStr s) = Inr (StringToNumber rt s)
       \<and> computeTIME rt (JNum (Fin 5)) (JNum (Fin 5)) = Inr \<lparr>code = str ''I'', label = str ''Invest''\<rparr>
       \<and> computeTIME rt (JNum (Fin 2)) (JNum (Fin 5)) = Inr \<lparr>code = str ''M'', label = str ''Migrate''\<rparr>
       \<and> computeTIME rt (JNum (Fin 5)) (JNum (Fin 2)) = Inr \<lparr>code = str ''T'', label = str ''Tolerate''\<rparr>
       \<and> computeTIME rt (JNum (Fin 1)) (JNum (Fin 1)) = Inr \<lparr>code = str ''E'', label = str ''Eliminate''\<rparr>
       \<and> computeTIME rt (JNum (Fin 4)) (JNum (Fin 4)) = Inr \<lparr>code = str ''I'', label = str ''Invest''\<rparr>
       \<and> computeTIME rt (JNum (Fin 3)) (JNum (Fin 4)) = Inr \<lparr>code = str ''M'', label = str ''Migrate''\<rparr>"
  using assms js_lt_not_ge [of a] js_lt_not_ge [of b]
  by (simp add: computeTIME_def andThen_def js_ge_def)

theorem computeTIME_quadrants_witness:
  "Number demo_rt (JStr (str ''5'')) = Inr (Fin 5) \<and> Number demo_rt Undefined = Inr NaN
     \<and> js_ge (Fin 5) (Fin 4) \<and> \<not> js_ge NaN (Fin 4)
     \<and> computeTIME demo_rt (JStr (str ''5'')) Undefined = Inr \<lparr>code = str ''T'', label = str ''Tolerate''\<rparr>"
proof -
  have t: "Number demo_rt (JStr (str ''5'')) = Inr (Fin 5)"
    by (simp add: demo_rt_def demo_StringToNumber_def str_def)
  have f: "Number demo_rt Undefined = Inr NaN"
    by simp
  have h: "js_ge (Fin 5) (Fin 4) \<and> \<not> js_ge NaN (Fin 4)"
    by (simp add: js_ge_def)
  show ?thesis
    using computeTIME_quadrants [OF t f] t f h by simp
qed

text \<open>
  C2. The classification of the worker and the one of the page's script return the same
  result on every pair of inputs, the thrown exception included.
\<close>

theorem computeTIME_client_agrees: "computeTIME_client rt t f = computeTIME rt t f"
  by (simp add: computeTIME_client_def computeTIME_def)

section \<open>Creating a record\<close>

subsection \<open>Routing and the adapter\<close>

lemma json_fixed [simp]:
  "json obj 200 = Inr \<lparr>status = 200, payload = JsonBody obj\<rparr>"
  "json obj 400 = Inr \<lparr>status = 400, payload = JsonBody obj\<rparr>"
  "json obj 401 = Inr \<lparr>status = 401, payload = JsonBody obj\<rparr>"
  "json obj 404 = Inr \<lparr>status = 404, payload = JsonBody obj\<rparr>"
  "json obj 405 = Inr \<lparr>status = 405, payload = JsonBody obj\<rparr>"
  "json obj 500 = Inr \<lparr>status = 500, payload = JsonBody obj\<rparr>"
  by (simp_all add: json_def)

lemma orThrow_Inr [simp]: "orThrow (Inr a) f = f a"
  by (simp add: orThrow_def)

lemma orThrow_Inl [simp]: "orThrow (Inl e) f = ([], Inl e)"
  by (simp add: orThrow_def)

lemma items_path_facts:
  "str ''/api/items'' \<noteq> str ''/''"
  "startsWith (str ''/api/items'') (str ''/api/'')"
  "startsWith (str ''/api/items'') (str ''/api/items'')"
  "path_id (str ''/api/items'') = None"
  by (simp_all add: startsWith_def path_id_def str_def)

lemma fetch_items:
  "pathname req = str ''/api/items'' \<Longrightarrow> fetch rt env req = handleItems rt env req"
  by (simp add: fetch_def handleApi_def items_path_facts)

lemma handleItems_create:
  assumes "pathname req = str ''/api/items''" and "req_method req = str ''POST''"
    and "env_or_empty env (str ''RESTDB_COLLECTION'') \<noteq> []"
  shows "handleItems rt env req
           = handleItems_POST rt env req (env_or_empty env (str ''RESTDB_COLLECTION''))"
  using assms by (simp add: handleItems_def items_path_facts Let_def)

lemma restdbFetch_calls:
  "restdbFetch rt env segs q m b = (calls, res) \<Longrightarrow>
     (calls = [] \<and> (\<exists>e. res = Inl e))
   \<or> (\<exists>r. calls = [r] \<and> up_segments r = segs \<and> up_query r = q \<and> up_method r = m \<and> up_body r = b)"
  by (auto simp: restdbFetch_def Let_def split: sum.splits)

lemma restdbFetch_configured:
  assumes "env_or_empty env (str ''RESTDB_BASE'') \<noteq> []"
    and "env_or_empty env (str ''RESTDB_COLLECTION'') \<noteq> []"
    and "env_or_empty env (str ''RESTDB_API_KEY'') \<noteq> []"
  shows "restdbFetch rt env segs q m b =
     (let r = \<lparr>up_base = strip_slash (env_or_empty env (str ''RESTDB_BASE'')),
                up_segments = segs, up_query = q, up_method = m,
                up_apikey = env_or_empty env (str ''RESTDB_API_KEY''), up_body = b\<rparr>
      in case global_fetch rt r of
           Inl e \<Rightarrow> ([r], Inl e)
         | Inr res \<Rightarrow> ([r], Inr (res, response_data rt res)))"
  using assms by (simp add: restdbFetch_def requireEnv_def Let_def)

lemmas demo_defs = demo_env_def env_or_empty_def create_request_def demo_rt_def
  demo_store_def demo_parse_def response_data_def

lemma demo_collection: "env_or_empty demo_env (str ''RESTDB_COLLECTION'') = str ''techmatrix''"
  by (simp add: demo_defs)

lemma demo_strip: "strip_slash (str ''https://db.example/'') = str ''https://db.example''"
  by (simp add: strip_slash_def str_def)

lemma trim_examples:
  "trim (str '' ACME '') = str ''ACME''" "trim (str ''ACME'') = str ''ACME''"
  "trim (str ''AI'') = str ''AI''" "trim (str ''TEAMS'') = str ''TEAMS''"
  "trim (str ''   '') = []" "trim [] = []"
  "trim (str ''C42'') = str ''C42''" "trim (str ''BETA'') = str ''BETA''"
  "trim (str '' BETA '') = str ''BETA''"
  by (simp_all add: trim_def str_def isWhiteSpace_def)

lemma trim_whitespace_only: "\<forall>c\<in>set s. isWhiteSpace c \<Longrightarrow> trim s = []"
  by (auto simp: trim_def dest: set_dropWhileD)

lemma computeTIME_of_numbers:
  "Number rt v = Inr a \<Longrightarrow> Number rt w = Inr b \<Longrightarrow>
     computeTIME rt (JNum a) (JNum b) = computeTIME rt v w"
  by (simp add: computeTIME_def andThen_def)

lemma handleItems_POST_call:
  assumes "r \<in> set (fst (handleItems_POST rt env req col))"
  shows "\<exists>doc t. up_body r = Some doc
           \<and> computeTIME rt (get_prop (case json_body req of None \<Rightarrow> JNull | Some v \<Rightarrow> v) (str ''technicalFit''))
                            (get_prop (case json_body req of None \<Rightarrow> JNull | Some v \<Rightarrow> v) (str ''functionalFit'')) = Inr t
           \<and> get_prop doc (str ''timeCode'') = JStr (code t)
           \<and> get_prop doc (str ''timeLabel'') = JStr (label t)"
  using assms
  by (auto simp: handleItems_POST_def orThrow_def Let_def computeTIME_of_numbers
        split: sum.splits prod.splits if_splits dest!: restdbFetch_calls)

lemma post_calls_are_create:
  assumes "req_method req = str ''POST''" and "r \<in> set (fst (fetch rt env req))"
  shows "r \<in> set (fst (handleItems_POST rt env req (env_or_empty env (str ''RESTDB_COLLECTION''))))"
proof -
  let ?col = "env_or_empty env (str ''RESTDB_COLLECTION'')"
  have cust: "fst (handleCustomers rt env req) = []"
    using assms(1) by (simp add: handleCustomers_def)
  have items: "handleItems rt env req =
      (if ?col = [] then ([], Inr \<lparr>status = 500, payload = JsonBody (JObj [(str ''ok'', JBool False), (str ''error'', JStr (str ''Missing RESTDB_COLLECTION''))])\<rparr>)
       else if path_id (pathname req) = None then handleItems_POST rt env req ?col
       else ([], Inr \<lparr>status = 405, payload = JsonBody (JObj [(str ''ok'', JBool False), (str ''error'', JStr (str ''Method not allowed''))])\<rparr>))"
    using assms(1) by (simp add: handleItems_def Let_def)
  have "fst (fetch rt env req) = [] \<or> fst (fetch rt env req) = fst (handleItems_POST rt env req ?col)"
    by (simp add: fetch_def handleApi_def cust items)
  then show ?thesis
    using assms(2) by auto
qed

lemma handleItems_POST_body_only:
  assumes "\<forall>k. k \<noteq> str ''timeCode'' \<and> k \<noteq> str ''timeLabel'' \<longrightarrow> map_of kvs k = map_of kvs' k"
  shows "handleItems_POST rt env (req\<lparr>json_body := Some (JObj kvs)\<rparr>) col
       = handleItems_POST rt env (req\<lparr>json_body := Some (JObj kvs')\<rparr>) col"
proof -
  have same: "get_prop (JObj kvs) (str k) = get_prop (JObj kvs') (str k)"
    if "k \<noteq> ''timeCode''" and "k \<noteq> ''timeLabel''" for k
    using assms that by simp
  show ?thesis
    by (simp add: handleItems_POST_def Let_def same del: get_prop.simps cong: if_cong)
qed

lemma fetch_body_only:
  assumes "\<And>col. handleItems_POST rt env (req\<lparr>json_body := b\<rparr>) col
                 = handleItems_POST rt env (req\<lparr>json_body := b'\<rparr>) col"
  shows "fetch rt env (req\<lparr>json_body := b\<rparr>) = fetch rt env (req\<lparr>json_body := b'\<rparr>)"
proof -
  have get: "handleItems_GET rt env (req\<lparr>json_body := x\<rparr>) col = handleItems_GET rt env req col"
    for x col
    by (simp add: handleItems_GET_def param_def)
  have cust: "handleCustomers rt env (req\<lparr>json_body := x\<rparr>) = handleCustomers rt env req" for x
    by (simp add: handleCustomers_def)
  have items: "handleItems rt env (req\<lparr>json_body := b\<rparr>) = handleItems rt env (req\<lparr>json_body := b'\<rparr>)"
    by (simp add: handleItems_def Let_def get assms cong: if_cong)
  show ?thesis
    by (simp add: fetch_def handleApi_def items cust cong: if_cong)
qed

lemma str_append: "str a @ str b = str (a @ b)"
  by (simp add: str_def)

lemma customers_path_facts:
  "str ''/api/customers'' \<noteq> str ''/''"
  "startsWith (str ''/api/customers'') (str ''/api/'')"
  "\<not> startsWith (str ''/api/customers'') (str ''/api/items'')"
  by (simp_all add: startsWith_def str_def)

lemma startsWith_items_not_root: "startsWith p (str ''/api/items'') \<Longrightarrow> p \<noteq> str ''/''"
  by (auto simp: startsWith_def str_def)

subsection \<open>Validation\<close>

text \<open>
  C3. A create request whose \<open>technicalFit\<close> is 0 and whose \<open>functionalFit\<close> is an object
  with an own \<open>toString\<close> property is not answered 400 "technicalFit must be 1-5": both
  ratings are coerced before the first range check, \<open>Number\<close> throws on the second, and
  nothing catches the TypeError. The same happens when \<open>technicalFit\<close> itself is such an
  object. This holds on every platform.
\<close>

theorem rating_coercion_uncaught:
  "fetch rt demo_env (create_request (JObj [
      (str ''technicalFit'', JNum (Fin 0)),
      (str ''functionalFit'', JObj [(str ''toString'', JNum (Fin 1))])]))
     = ([], Inl TypeError)
   \<and> fetch rt demo_env (create_request (JObj [
      (str ''technicalFit'', JObj [(str ''toString'', JNum (Fin 1))]),
      (str ''functionalFit'', JNum (Fin 3))]))
     = ([], Inl TypeError)"
  by (simp add: fetch_items handleItems_create create_request_def demo_collection
        handleItems_POST_def)

text \<open>
  What the range check does when both ratings coerce to numbers \<open>a\<close> and \<open>b\<close>: if \<open>a\<close>
  is not a number in [1,5] the answer is 400 with "technicalFit must be 1-5"; if \<open>a\<close> is
  and \<open>b\<close> is not, it is 400 with "functionalFit must be 1-5"; in both cases no request is
  sent to the store. The range is inclusive: exactly the finite numbers from 1 to 5 pass.
  Every rating coerces to a number but an object with an own \<open>toString\<close> property, or an
  array holding one (\<open>Number_completes\<close>).
\<close>

lemma rating_range_validation:
  assumes "pathname req = str ''/api/items''" and "req_method req = str ''POST''"
    and "env_or_empty env (str ''RESTDB_COLLECTION'') \<noteq> []"
    and "json_body req = Some body" and "truthy body"
    and "Number rt (get_prop body (str ''technicalFit'')) = Inr a"
    and "Number rt (get_prop body (str ''functionalFit'')) = Inr b"
  shows "(\<not> (js_ge a (Fin 1) \<and> js_le a (Fin 5)) \<longrightarrow>
            fetch rt env req = ([], Inr \<lparr>status = 400, payload = JsonBody (JObj [(str ''ok'', JBool False), (str ''error'', JStr (str ''technicalFit must be 1-5''))])\<rparr>))
       \<and> (js_ge a (Fin 1) \<and> js_le a (Fin 5) \<and> \<not> (js_ge b (Fin 1) \<and> js_le b (Fin 5)) \<longrightarrow>
            fetch rt env req = ([], Inr \<lparr>status = 400, payload = JsonBody (JObj [(str ''ok'', JBool False), (str ''error'', JStr (str ''functionalFit must be 1-5''))])\<rparr>))
       \<and> (\<forall>n. js_ge n (Fin 1) \<and> js_le n (Fin 5) \<longleftrightarrow> (\<exists>q. n = Fin q \<and> 1 \<le> q \<and> q \<le> 5))"
proof -
  let ?col = "env_or_empty env (str ''RESTDB_COLLECTION'')"
  have post: "fetch rt env req = handleItems_POST rt env req ?col"
    using assms(1-3) by (simp add: fetch_items handleItems_create)
  have c1: "\<not> (js_ge a (Fin 1) \<and> js_le a (Fin 5)) \<Longrightarrow>
      handleItems_POST rt env req ?col
        = ([], Inr \<lparr>status = 400, payload = JsonBody (JObj [(str ''ok'', JBool False), (str ''error'', JStr (str ''technicalFit must be 1-5''))])\<rparr>)"
    using assms(4-7) by (simp add: handleItems_POST_def)
  have c2: "js_ge a (Fin 1) \<and> js_le a (Fin 5) \<Longrightarrow> \<not> (js_ge b (Fin 1) \<and> js_le b (Fin 5)) \<Longrightarrow>
      handleItems_POST rt env req ?col
        = ([], Inr \<lparr>status = 400, payload = JsonBody (JObj [(str ''ok'', JBool False), (str ''error'', JStr (str ''functionalFit must be 1-5''))])\<rparr>)"
    using assms(4-7) by (simp add: handleItems_POST_def)
  have c4: "js_ge n (Fin 1) \<and> js_le n (Fin 5) \<longleftrightarrow> (\<exists>q. n = Fin q \<and> 1 \<le> q \<and> q \<le> 5)" for n
    by (cases n) (auto simp: js_ge_def)
  show ?thesis
    using c1 c2 c4 unfolding post by blast
qed

lemma rating_range_validation_example:
  "fetch demo_rt demo_env (create_request (ratings_body 0 6))
     = ([], Inr \<lparr>status = 400, payload = JsonBody (JObj [(str ''ok'', JBool False), (str ''error'', JStr (str ''technicalFit must be 1-5''))])\<rparr>)
   \<and> fetch demo_rt demo_env (create_request (ratings_body 5 6))
     = ([], Inr \<lparr>status = 400, payload = JsonBody (JObj [(str ''ok'', JBool False), (str ''error'', JStr (str ''functionalFit must be 1-5''))])\<rparr>)"
proof -
  have h: "pathname (create_request (ratings_body t f)) = str ''/api/items''"
    "req_method (create_request (ratings_body t f)) = str ''POST''"
    "env_or_empty demo_env (str ''RESTDB_COLLECTION'') \<noteq> []"
    "json_body (create_request (ratings_body t f)) = Some (ratings_body t f)"
    "truthy (ratings_body t f)"
    "Number demo_rt (get_prop (ratings_body t f) (str ''technicalFit'')) = Inr (Fin t)"
    "Number demo_rt (get_prop (ratings_body t f) (str ''functionalFit'')) = Inr (Fin f)" for t f
    by (simp_all add: demo_defs ratings_body_def)
  show ?thesis
    using rating_range_validation [OF h, of 0 6] rating_range_validation [OF h, of 5 6]
    by (simp add: js_ge_def)
qed

text \<open>
  C4. A create request whose ratings are 3 and 3, whose \<open>customerName\<close> is empty and whose
  \<open>vendor\<close> is an object with an own \<open>toString\<close> property is not answered with the
  combined 400: all eight string fields are converted before the check of the three
  required ones, \<open>String\<close> throws on \<open>vendor\<close>, and nothing catches the TypeError. This
  holds on every platform.
\<close>

theorem required_fields_coercion_uncaught:
  "fetch rt demo_env (create_request (JObj [
      (str ''technicalFit'', JNum (Fin 3)),
      (str ''functionalFit'', JNum (Fin 3)),
      (str ''customerName'', JStr []),
      (str ''category'', JStr (str ''AI'')),
      (str ''solution'', JStr (str ''TEAMS'')),
      (str ''vendor'', JObj [(str ''toString'', JNum (Fin 1))])]))
     = ([], Inl TypeError)"
  by (simp add: fetch_items handleItems_create create_request_def demo_collection
        handleItems_POST_def js_ge_def S_def andThen_def trim_examples)

text \<open>
  What the check of the required fields does when the ratings pass and the eight string
  fields convert (\<open>S_completes\<close>: every value but an object with an own \<open>toString\<close>
  property, or an array holding one): if the customer name, the category or the solution
  is empty after trimming, the answer is 400 with the one message that names the three
  fields, and no request is sent to the store. An absent field, \<open>null\<close> and a string of
  white space are all empty after trimming.
\<close>

lemma required_fields_validation:
  assumes "pathname req = str ''/api/items''" and "req_method req = str ''POST''"
    and "env_or_empty env (str ''RESTDB_COLLECTION'') \<noteq> []"
    and "json_body req = Some body" and "truthy body"
    and "Number rt (get_prop body (str ''technicalFit'')) = Inr a"
    and "js_ge a (Fin 1) \<and> js_le a (Fin 5)"
    and "Number rt (get_prop body (str ''functionalFit'')) = Inr b"
    and "js_ge b (Fin 1) \<and> js_le b (Fin 5)"
    and "\<forall>k\<in>set text_fields. \<exists>s. S rt (get_prop body k) = Inr s"
  shows "(S rt (get_prop body (str ''customerName'')) = Inr []
          \<or> S rt (get_prop body (str ''category'')) = Inr []
          \<or> S rt (get_prop body (str ''solution'')) = Inr [] \<longrightarrow>
            fetch rt env req = ([], Inr \<lparr>status = 400, payload = JsonBody (JObj [(str ''ok'', JBool False), (str ''error'', JStr (str ''customerName, category, and solution are required''))])\<rparr>))
       \<and> S rt Undefined = Inr [] \<and> S rt JNull = Inr []
       \<and> (\<forall>s. (\<forall>c\<in>set s. isWhiteSpace c) \<longrightarrow> S rt (JStr s) = Inr [])"
proof -
  let ?col = "env_or_empty env (str ''RESTDB_COLLECTION'')"
  have post: "fetch rt env req = handleItems_POST rt env req ?col"
    using assms(1-3) by (simp add: fetch_items handleItems_create)
  obtain s1 s2 s3 s4 s5 s6 s7 s8 where conv:
    "S rt (get_prop body (str ''customerName'')) = Inr s1"
    "S rt (get_prop body (str ''customerId'')) = Inr s2"
    "S rt (get_prop body (str ''category'')) = Inr s3"
    "S rt (get_prop body (str ''solution'')) = Inr s4"
    "S rt (get_prop body (str ''vendor'')) = Inr s5"
    "S rt (get_prop body (str ''notes'')) = Inr s6"
    "S rt (get_prop body (str ''dateImplemented'')) = Inr s7"
    "S rt (get_prop body (str ''contractExpiration'')) = Inr s8"
    using assms(10) unfolding text_fields_def by auto
  have "s1 = [] \<or> s3 = [] \<or> s4 = [] \<Longrightarrow>
      handleItems_POST rt env req ?col = ([], Inr \<lparr>status = 400, payload = JsonBody (JObj [(str ''ok'', JBool False), (str ''error'', JStr (str ''customerName, category, and solution are required''))])\<rparr>)"
    using assms(4-9) conv by (simp add: handleItems_POST_def)
  moreover have "S rt (JStr s) = Inr []" if "\<forall>c\<in>set s. isWhiteSpace c" for s
    using that by (simp add: S_def andThen_def trim_whitespace_only)
  ultimately show ?thesis
    unfolding post using conv by (simp add: S_def)
qed

lemma required_fields_validation_example:
  "S demo_rt (get_prop (ratings_body 1 5) (str ''solution'')) = Inr []
   \<and> fetch demo_rt demo_env (create_request (ratings_body 1 5))
     = ([], Inr \<lparr>status = 400, payload = JsonBody (JObj [(str ''ok'', JBool False), (str ''error'', JStr (str ''customerName, category, and solution are required''))])\<rparr>)"
proof -
  have h: "pathname (create_request (ratings_body 1 5)) = str ''/api/items''"
    "req_method (create_request (ratings_body 1 5)) = str ''POST''"
    "env_or_empty demo_env (str ''RESTDB_COLLECTION'') \<noteq> []"
    "json_body (create_request (ratings_body 1 5)) = Some (ratings_body 1 5)"
    "truthy (ratings_body 1 5)"
    "Number demo_rt (get_prop (ratings_body 1 5) (str ''technicalFit'')) = Inr (Fin 1)"
    "js_ge (Fin 1) (Fin 1) \<and> js_le (Fin 1) (Fin 5)"
    "Number demo_rt (get_prop (ratings_body 1 5) (str ''functionalFit'')) = Inr (Fin 5)"
    "js_ge (Fin 5) (Fin 1) \<and> js_le (Fin 5) (Fin 5)"
    "\<forall>k\<in>set text_fields. \<exists>s. S demo_rt (get_prop (ratings_body 1 5) k) = Inr s"
    by (simp_all add: demo_defs ratings_body_def js_ge_def text_fields_def S_def andThen_def)
  have e: "S demo_rt (get_prop (ratings_body 1 5) (str ''solution'')) = Inr []"
    by (simp add: ratings_body_def S_def andThen_def trim_examples)
  show ?thesis
    using required_fields_validation [OF h] e by simp
qed

text \<open>
  C10. For \<open>POST /api/items\<close> with the collection configured, the answer is 400
  "Invalid JSON body" exactly when the parsed body is falsy, \<open>null\<close> standing for a body
  that does not parse; a falsy body gets the very outcome of a body that does not parse,
  whatever the configuration. The JSON values \<open>null\<close>, \<open>false\<close>, \<open>0\<close> and the empty
  string are falsy.
\<close>

theorem falsy_body_rejected:
  assumes "pathname req = str ''/api/items''" and "req_method req = str ''POST''"
    and "env_or_empty env (str ''RESTDB_COLLECTION'') \<noteq> []"
  shows "(fetch rt env req = ([], Inr \<lparr>status = 400, payload = JsonBody (JObj [(str ''ok'', JBool False), (str ''error'', JStr (str ''Invalid JSON body''))])\<rparr>)
            \<longleftrightarrow> \<not> truthy (case json_body req of None \<Rightarrow> JNull | Some v \<Rightarrow> v))
       \<and> (\<forall>v. \<not> truthy v \<longrightarrow>
             fetch rt env (req\<lparr>json_body := Some v\<rparr>) = fetch rt env (req\<lparr>json_body := None\<rparr>))
       \<and> \<not> truthy JNull \<and> \<not> truthy (JBool False) \<and> \<not> truthy (JNum (Fin 0)) \<and> \<not> truthy (JStr [])"
proof -
  let ?col = "env_or_empty env (str ''RESTDB_COLLECTION'')"
  let ?body = "case json_body req of None \<Rightarrow> JNull | Some v \<Rightarrow> v"
  have post: "fetch rt env r = handleItems_POST rt env r ?col"
    if "pathname r = pathname req" and "req_method r = req_method req" for r
    using assms that by (simp add: fetch_items handleItems_create)
  have falsy: "handleItems_POST rt env r ?col
                 = ([], Inr \<lparr>status = 400, payload = JsonBody (JObj [(str ''ok'', JBool False), (str ''error'', JStr (str ''Invalid JSON body''))])\<rparr>)"
    if "\<not> truthy (case json_body r of None \<Rightarrow> JNull | Some v \<Rightarrow> v)" for r
    using that by (simp add: handleItems_POST_def)
  have truthy: "handleItems_POST rt env req ?col
                 \<noteq> ([], Inr \<lparr>status = 400, payload = JsonBody (JObj [(str ''ok'', JBool False), (str ''error'', JStr (str ''Invalid JSON body''))])\<rparr>)"
    if "truthy ?body"
    using that
    by (auto simp: handleItems_POST_def orThrow_def Let_def
          split: sum.splits prod.splits if_splits dest!: restdbFetch_calls)
  have same: "fetch rt env (req\<lparr>json_body := Some v\<rparr>) = fetch rt env (req\<lparr>json_body := None\<rparr>)"
    if "\<not> truthy v" for v
    using that by (simp add: post falsy)
  show ?thesis
    using falsy [of req] truthy same by (auto simp: post)
qed

theorem falsy_body_rejected_witness:
  "fetch demo_rt demo_env (create_request (JNum (Fin 0)))
     = ([], Inr \<lparr>status = 400, payload = JsonBody (JObj [(str ''ok'', JBool False), (str ''error'', JStr (str ''Invalid JSON body''))])\<rparr>)
   \<and> fetch demo_rt demo_env (create_request (JNum (Fin 0)))
     = fetch demo_rt demo_env ((create_request (JNum (Fin 0)))\<lparr>json_body := None\<rparr>)"
proof -
  have h: "pathname (create_request (JNum (Fin 0))) = str ''/api/items''"
    "req_method (create_request (JNum (Fin 0))) = str ''POST''"
    "env_or_empty demo_env (str ''RESTDB_COLLECTION'') \<noteq> []"
    by (simp_all add: demo_defs)
  have b: "json_body (create_request (JNum (Fin 0))) = Some (JNum (Fin 0))"
    "(create_request (JNum (Fin 0)))\<lparr>json_body := Some (JNum (Fin 0))\<rparr> = create_request (JNum (Fin 0))"
    by (simp_all add: create_request_def)
  show ?thesis
    using falsy_body_rejected [OF h, of demo_rt] b
    by (metis option.simps(5) truthy.simps(4))
qed

subsection \<open>The stored document\<close>

lemma create_sends_document:
  assumes "pathname req = str ''/api/items''" and "req_method req = str ''POST''"
    and env: "env_or_empty env (str ''RESTDB_BASE'') \<noteq> []"
      "env_or_empty env (str ''RESTDB_COLLECTION'') \<noteq> []"
      "env_or_empty env (str ''RESTDB_API_KEY'') \<noteq> []"
    and body: "json_body req = Some body" "truthy body"
    and ratings: "Number rt (get_prop body (str ''technicalFit'')) = Inr a"
      "js_ge a (Fin 1) \<and> js_le a (Fin 5)"
      "Number rt (get_prop body (str ''functionalFit'')) = Inr b"
      "js_ge b (Fin 1) \<and> js_le b (Fin 5)"
    and fields: "S rt (get_prop body (str ''customerName'')) = Inr customerName"
      "S rt (get_prop body (str ''customerId'')) = Inr customerId"
      "S rt (get_prop body (str ''category'')) = Inr category"
      "S rt (get_prop body (str ''solution'')) = Inr solution"
      "S rt (get_prop body (str ''vendor'')) = Inr vendor"
      "S rt (get_prop body (str ''notes'')) = Inr notes"
      "S rt (get_prop body (str ''dateImplemented'')) = Inr dateImplemented"
      "S rt (get_prop body (str ''contractExpiration'')) = Inr contractExpiration"
    and required: "customerName \<noteq> []" "category \<noteq> []" "solution \<noteq> []"
  shows "\<exists>t r. computeTIME rt (get_prop body (str ''technicalFit''))
                  (get_prop body (str ''functionalFit'')) = Inr t
     \<and> r = \<lparr>up_base = strip_slash (env_or_empty env (str ''RESTDB_BASE'')),
             up_segments = [str ''rest'', env_or_empty env (str ''RESTDB_COLLECTION'')],
             up_query = [], up_method = str ''POST'',
             up_apikey = env_or_empty env (str ''RESTDB_API_KEY''),
             up_body = Some (JObj [
               (str ''customerName'', JStr customerName),
               (str ''customerId'', if customerId \<noteq> [] then JStr customerId else JNull),
               (str ''category'', JStr category),
               (str ''solution'', JStr solution),
               (str ''vendor'', JStr vendor),
               (str ''notes'', JStr notes),
               (str ''technicalFit'', JNum a),
               (str ''functionalFit'', JNum b),
               (str ''timeCode'', JStr (code t)),
               (str ''timeLabel'', JStr (label t)),
               (str ''dateImplemented'', if dateImplemented \<noteq> [] then JStr dateImplemented else JNull),
               (str ''contractExpiration'',
                  if contractExpiration \<noteq> [] then JStr contractExpiration else JNull),
               (str ''createdAt'', JStr (now_iso rt)),
               (str ''updatedAt'', JStr (now_iso rt))])\<rparr>
     \<and> fst (fetch rt env req) = [r]
     \<and> (\<forall>res. global_fetch rt r = Inr res \<and> res_ok res \<longrightarrow>
           snd (fetch rt env req)
             = Inr \<lparr>status = 200, payload = JsonBody (JObj [(str ''ok'', JBool True),
                      (str ''item'', response_data rt res)])\<rparr>)"
proof -
  let ?col = "env_or_empty env (str ''RESTDB_COLLECTION'')"
  have post: "fetch rt env req = handleItems_POST rt env req ?col"
    using assms(1,2) env(2) by (simp add: fetch_items handleItems_create)
  have "\<exists>t. computeTIME rt (JNum a) (JNum b) = Inr t"
    by (simp add: computeTIME_def andThen_def Let_def)
  then obtain t where t: "computeTIME rt (JNum a) (JNum b) = Inr t" ..
  then have raw: "computeTIME rt (get_prop body (str ''technicalFit''))
                  (get_prop body (str ''functionalFit'')) = Inr t"
    using computeTIME_of_numbers [OF ratings(1) ratings(3)] by simp
  define doc where "doc = JObj [
               (str ''customerName'', JStr customerName),
               (str ''customerId'', if customerId \<noteq> [] then JStr customerId else JNull),
               (str ''category'', JStr category),
               (str ''solution'', JStr solution),
               (str ''vendor'', JStr vendor),
               (str ''notes'', JStr notes),
               (str ''technicalFit'', JNum a),
               (str ''functionalFit'', JNum b),
               (str ''timeCode'', JStr (code t)),
               (str ''timeLabel'', JStr (label t)),
               (str ''dateImplemented'', if dateImplemented \<noteq> [] then JStr dateImplemented else JNull),
               (str ''contractExpiration'',
                  if contractExpiration \<noteq> [] then JStr contractExpiration else JNull),
               (str ''createdAt'', JStr (now_iso rt)),
               (str ''updatedAt'', JStr (now_iso rt))]"
  define r where "r = \<lparr>up_base = strip_slash (env_or_empty env (str ''RESTDB_BASE'')),
             up_segments = [str ''rest'', ?col],
             up_query = [], up_method = str ''POST'',
             up_apikey = env_or_empty env (str ''RESTDB_API_KEY''),
             up_body = Some doc\<rparr>"
  have sent: "restdbFetch rt env [str ''rest'', ?col] [] (str ''POST'') (Some doc)
      = (case global_fetch rt r of
           Inl e \<Rightarrow> ([r], Inl e)
         | Inr res \<Rightarrow> ([r], Inr (res, response_data rt res)))"
    unfolding restdbFetch_configured [OF env] Let_def r_def by (rule refl)
  have "handleItems_POST rt env req ?col
      = (case restdbFetch rt env [str ''rest'', ?col] [] (str ''POST'') (Some doc) of
           (calls, Inl e) \<Rightarrow> (calls, Inl e)
         | (calls, Inr (res, data)) \<Rightarrow>
             (if \<not> res_ok res
              then (calls, json (JObj [(str ''ok'', JBool False), (str ''error'', data)]) (up_status res))
              else (calls, json (JObj [(str ''ok'', JBool True), (str ''item'', data)]) 200)))"
    unfolding handleItems_POST_def doc_def
    using body ratings fields required t by (simp add: or_null_def Let_def)
  then have run: "fetch rt env req
      = (case global_fetch rt r of
           Inl e \<Rightarrow> ([r], Inl e)
         | Inr res \<Rightarrow>
             (if \<not> res_ok res
              then ([r], json (JObj [(str ''ok'', JBool False), (str ''error'', response_data rt res)])
                           (up_status res))
              else ([r], Inr \<lparr>status = 200, payload = JsonBody (JObj [(str ''ok'', JBool True),
                      (str ''item'', response_data rt res)])\<rparr>)))"
    unfolding post sent by (cases "global_fetch rt r") simp_all
  have calls: "fst (fetch rt env req) = [r]"
    unfolding run by (cases "global_fetch rt r") simp_all
  have result: "snd (fetch rt env req)
             = Inr \<lparr>status = 200, payload = JsonBody (JObj [(str ''ok'', JBool True),
                      (str ''item'', response_data rt res)])\<rparr>"
    if "global_fetch rt r = Inr res \<and> res_ok res" for res
    unfolding run using that by simp
  show ?thesis
    apply (rule exI [of _ t])
    apply (rule exI [of _ r])
    using raw calls result by (simp add: r_def doc_def)
qed

text \<open>
  C5. A create request that passes validation, with the store configured, sends exactly
  one request to the store: a \<open>POST\<close> of the collection whose document holds the trimmed
  fields, the two ratings as numbers, the two timestamps, and as \<open>timeCode\<close> and
  \<open>timeLabel\<close> the result of \<open>computeTIME\<close> on the submitted \<open>technicalFit\<close> and
  \<open>functionalFit\<close>; when the store answers 2xx the response is 200 with
  \<open>{ok: true, item}\<close>, the item being the store's data. Conversely every request that a
  \<open>POST\<close> sends to the store carries a document with that \<open>timeCode\<close> and
  \<open>timeLabel\<close>. Two bodies that differ at most in their \<open>timeCode\<close> and \<open>timeLabel\<close>
  properties have the same outcome: what the client supplies there is never read.
\<close>

theorem create_classifies_server_side:
  "(pathname req = str ''/api/items''
      \<and> req_method req = str ''POST''
      \<and> env_or_empty env (str ''RESTDB_BASE'') \<noteq> []
      \<and> env_or_empty env (str ''RESTDB_COLLECTION'') \<noteq> []
      \<and> env_or_empty env (str ''RESTDB_API_KEY'') \<noteq> []
      \<and> json_body req = Some body
      \<and> truthy body
      \<and> Number rt (get_prop body (str ''technicalFit'')) = Inr a
      \<and> js_ge a (Fin 1) \<and> js_le a (Fin 5)
      \<and> Number rt (get_prop body (str ''functionalFit'')) = Inr b
      \<and> js_ge b (Fin 1) \<and> js_le b (Fin 5)
      \<and> S rt (get_prop body (str ''customerName'')) = Inr customerName
      \<and> S rt (get_prop body (str ''customerId'')) = Inr customerId
      \<and> S rt (get_prop body (str ''category'')) = Inr category
      \<and> S rt (get_prop body (str ''solution'')) = Inr solution
      \<and> S rt (get_prop body (str ''vendor'')) = Inr vendor
      \<and> S rt (get_prop body (str ''notes'')) = Inr notes
      \<and> S rt (get_prop body (str ''dateImplemented'')) = Inr dateImplemented
      \<and> S rt (get_prop body (str ''contractExpiration'')) = Inr contractExpiration
      \<and> customerName \<noteq> []
      \<and> category \<noteq> []
      \<and> solution \<noteq> []
    \<longrightarrow>
     (\<exists>t r. computeTIME rt (get_prop body (str ''technicalFit''))
                  (get_prop body (str ''functionalFit'')) = Inr t
     \<and> r = \<lparr>up_base = strip_slash (env_or_empty env (str ''RESTDB_BASE'')),
             up_segments = [str ''rest'', env_or_empty env (str ''RESTDB_COLLECTION'')],
             up_query = [], up_method = str ''POST'',
             up_apikey = env_or_empty env (str ''RESTDB_API_KEY''),
             up_body = Some (JObj [
               (str ''customerName'', JStr customerName),
               (str ''customerId'', if customerId \<noteq> [] then JStr customerId else JNull),
               (str ''category'', JStr category),
               (str ''solution'', JStr solution),
               (str ''vendor'', JStr vendor),
               (str ''notes'', JStr notes),
               (str ''technicalFit'', JNum a),
               (str ''functionalFit'', JNum b),
               (str ''timeCode'', JStr (code t)),
               (str ''timeLabel'', JStr (label t)),
               (str ''dateImplemented'', if dateImplemented \<noteq> [] then JStr dateImplemented else JNull),
               (str ''contractExpiration'',
                  if contractExpiration \<noteq> [] then JStr contractExpiration else JNull),
               (str ''createdAt'', JStr (now_iso rt)),
               (str ''updatedAt'', JStr (now_iso rt))])\<rparr>
     \<and> fst (fetch rt env req) = [r]
     \<and> (\<forall>res. global_fetch rt r = Inr res \<and> res_ok res \<longrightarrow>
           snd (fetch rt env req)
             = Inr \<lparr>status = 200, payload = JsonBody (JObj [(str ''ok'', JBool True),
                      (str ''item'', response_data rt res)])\<rparr>)))
   \<and> (req_method req = str ''POST'' \<and> r \<in> set (fst (fetch rt env req)) \<longrightarrow>
      (\<exists>doc t. up_body r = Some doc
         \<and> computeTIME rt
              (get_prop (case json_body req of None \<Rightarrow> JNull | Some v \<Rightarrow> v) (str ''technicalFit''))
              (get_prop (case json_body req of None \<Rightarrow> JNull | Some v \<Rightarrow> v) (str ''functionalFit''))
             = Inr t
         \<and> get_prop doc (str ''timeCode'') = JStr (code t)
         \<and> get_prop doc (str ''timeLabel'') = JStr (label t)))
   \<and> ((\<forall>k. k \<noteq> str ''timeCode'' \<and> k \<noteq> str ''timeLabel'' \<longrightarrow> map_of kvs k = map_of kvs' k) \<longrightarrow>
        fetch rt env (req\<lparr>json_body := Some (JObj kvs)\<rparr>)
          = fetch rt env (req\<lparr>json_body := Some (JObj kvs')\<rparr>))"
proof (intro conjI impI)
  assume h: "pathname req = str ''/api/items''
      \<and> req_method req = str ''POST''
      \<and> env_or_empty env (str ''RESTDB_BASE'') \<noteq> []
      \<and> env_or_empty env (str ''RESTDB_COLLECTION'') \<noteq> []
      \<and> env_or_empty env (str ''RESTDB_API_KEY'') \<noteq> []
      \<and> json_body req = Some body
      \<and> truthy body
      \<and> Number rt (get_prop body (str ''technicalFit'')) = Inr a
      \<and> js_ge a (Fin 1) \<and> js_le a (Fin 5)
      \<and> Number rt (get_prop body (str ''functionalFit'')) = Inr b
      \<and> js_ge b (Fin 1) \<and> js_le b (Fin 5)
      \<and> S rt (get_prop body (str ''customerName'')) = Inr customerName
      \<and> S rt (get_prop body (str ''customerId'')) = Inr customerId
      \<and> S rt (get_prop body (str ''category'')) = Inr category
      \<and> S rt (get_prop body (str ''solution'')) = Inr solution
      \<and> S rt (get_prop body (str ''vendor'')) = Inr vendor
      \<and> S rt (get_prop body (str ''notes'')) = Inr notes
      \<and> S rt (get_prop body (str ''dateImplemented'')) = Inr dateImplemented
      \<and> S rt (get_prop body (str ''contractExpiration'')) = Inr contractExpiration
      \<and> customerName \<noteq> []
      \<and> category \<noteq> []
      \<and> solution \<noteq> []"
  show "\<exists>t r. computeTIME rt (get_prop body (str ''technicalFit''))
                  (get_prop body (str ''functionalFit'')) = Inr t
     \<and> r = \<lparr>up_base = strip_slash (env_or_empty env (str ''RESTDB_BASE'')),
             up_segments = [str ''rest'', env_or_empty env (str ''RESTDB_COLLECTION'')],
             up_query = [], up_method = str ''POST'',
             up_apikey = env_or_empty env (str ''RESTDB_API_KEY''),
             up_body = Some (JObj [
               (str ''customerName'', JStr customerName),
               (str ''customerId'', if customerId \<noteq> [] then JStr customerId else JNull),
               (str ''category'', JStr category),
               (str ''solution'', JStr solution),
               (str ''vendor'', JStr vendor),
               (str ''notes'', JStr notes),
               (str ''technicalFit'', JNum a),
               (str ''functionalFit'', JNum b),
               (str ''timeCode'', JStr (code t)),
               (str ''timeLabel'', JStr (label t)),
               (str ''dateImplemented'', if dateImplemented \<noteq> [] then JStr dateImplemented else JNull),
               (str ''contractExpiration'',
                  if contractExpiration \<noteq> [] then JStr contractExpiration else JNull),
               (str ''createdAt'', JStr (now_iso rt)),
               (str ''updatedAt'', JStr (now_iso rt))])\<rparr>
     \<and> fst (fetch rt env req) = [r]
     \<and> (\<forall>res. global_fetch rt r = Inr res \<and> res_ok res \<longrightarrow>
           snd (fetch rt env req)
             = Inr \<lparr>status = 200, payload = JsonBody (JObj [(str ''ok'', JBool True),
                      (str ''item'', response_data rt res)])\<rparr>)"
    by (rule create_sends_document) (use h in simp_all)
next
  assume "req_method req = str ''POST'' \<and> r \<in> set (fst (fetch rt env req))"
  then have "r \<in> set (fst (handleItems_POST rt env req (env_or_empty env (str ''RESTDB_COLLECTION''))))"
    by (simp add: post_calls_are_create)
  then show "\<exists>doc t. up_body r = Some doc
         \<and> computeTIME rt
              (get_prop (case json_body req of None \<Rightarrow> JNull | Some v \<Rightarrow> v) (str ''technicalFit''))
              (get_prop (case json_body req of None \<Rightarrow> JNull | Some v \<Rightarrow> v) (str ''functionalFit''))
             = Inr t
         \<and> get_prop doc (str ''timeCode'') = JStr (code t)
         \<and> get_prop doc (str ''timeLabel'') = JStr (label t)"
    by (rule handleItems_POST_call)
next
  assume "\<forall>k. k \<noteq> str ''timeCode'' \<and> k \<noteq> str ''timeLabel'' \<longrightarrow> map_of kvs k = map_of kvs' k"
  then have "handleItems_POST rt env (req\<lparr>json_body := Some (JObj kvs)\<rparr>) col
       = handleItems_POST rt env (req\<lparr>json_body := Some (JObj kvs')\<rparr>) col" for col
    by (rule handleItems_POST_body_only)
  then show "fetch rt env (req\<lparr>json_body := Some (JObj kvs)\<rparr>)
          = fetch rt env (req\<lparr>json_body := Some (JObj kvs')\<rparr>)"
    by (rule fetch_body_only)
qed

theorem create_classifies_server_side_witness:
  "req_method (create_request body_override) = str ''POST''
   \<and> truthy body_override
   \<and> Number demo_rt (get_prop body_override (str ''technicalFit'')) = Inr (Fin 2)
   \<and> Number demo_rt (get_prop body_override (str ''functionalFit'')) = Inr (Fin 5)
   \<and> S demo_rt (get_prop body_override (str ''customerName'')) = Inr (str ''ACME'')
   \<and> fst (fetch demo_rt demo_env (create_request body_override)) = [demo_call]
   \<and> up_body demo_call = Some demo_doc
   \<and> computeTIME demo_rt (JNum (Fin 2)) (JNum (Fin 5)) = Inr \<lparr>code = str ''M'', label = str ''Migrate''\<rparr>
   \<and> get_prop demo_doc (str ''timeCode'') = JStr (str ''M'')
   \<and> get_prop demo_doc (str ''timeLabel'') = JStr (str ''Migrate'')
   \<and> fetch demo_rt demo_env (create_request body_override)
       = fetch demo_rt demo_env (create_request body_plain)"
proof -
  let ?kvs = "[(str ''customerName'', JStr (str '' ACME '')),
     (str ''category'', JStr (str ''AI'')),
     (str ''solution'', JStr (str ''TEAMS'')),
     (str ''technicalFit'', JNum (Fin 2)),
     (str ''functionalFit'', JNum (Fin 5)),
     (str ''timeCode'', JStr (str ''I'')),
     (str ''timeLabel'', JStr (str ''Invest''))]"
  let ?kvs' = "[(str ''customerName'', JStr (str '' ACME '')),
     (str ''category'', JStr (str ''AI'')),
     (str ''solution'', JStr (str ''TEAMS'')),
     (str ''technicalFit'', JNum (Fin 2)),
     (str ''functionalFit'', JNum (Fin 5))]"
  note T = create_classifies_server_side [where req = "create_request body_override"
      and rt = demo_rt and env = demo_env and body = body_override
      and a = "Fin 2" and b = "Fin 5" and customerName = "str ''ACME''" and customerId = "[]"
      and category = "str ''AI''" and solution = "str ''TEAMS''" and vendor = "[]"
      and ?notes = "[]" and dateImplemented = "[]" and contractExpiration = "[]"
      and kvs = ?kvs and kvs' = ?kvs']
  have m: "req_method (create_request body_override) = str ''POST''"
    by (simp add: create_request_def)
  have b: "truthy body_override"
    "Number demo_rt (get_prop body_override (str ''technicalFit'')) = Inr (Fin 2)"
    "Number demo_rt (get_prop body_override (str ''functionalFit'')) = Inr (Fin 5)"
    "S demo_rt (get_prop body_override (str ''customerName'')) = Inr (str ''ACME'')"
    by (simp_all add: body_override_def S_def andThen_def trim_examples)
  have h: "pathname (create_request body_override) = str ''/api/items''
      \<and> req_method (create_request body_override) = str ''POST''
      \<and> env_or_empty demo_env (str ''RESTDB_BASE'') \<noteq> []
      \<and> env_or_empty demo_env (str ''RESTDB_COLLECTION'') \<noteq> []
      \<and> env_or_empty demo_env (str ''RESTDB_API_KEY'') \<noteq> []
      \<and> json_body (create_request body_override) = Some body_override
      \<and> truthy body_override
      \<and> Number demo_rt (get_prop body_override (str ''technicalFit'')) = Inr (Fin 2)
      \<and> js_ge (Fin 2) (Fin 1) \<and> js_le (Fin 2) (Fin 5)
      \<and> Number demo_rt (get_prop body_override (str ''functionalFit'')) = Inr (Fin 5)
      \<and> js_ge (Fin 5) (Fin 1) \<and> js_le (Fin 5) (Fin 5)
      \<and> S demo_rt (get_prop body_override (str ''customerName'')) = Inr (str ''ACME'')
      \<and> S demo_rt (get_prop body_override (str ''customerId'')) = Inr []
      \<and> S demo_rt (get_prop body_override (str ''category'')) = Inr (str ''AI'')
      \<and> S demo_rt (get_prop body_override (str ''solution'')) = Inr (str ''TEAMS'')
      \<and> S demo_rt (get_prop body_override (str ''vendor'')) = Inr []
      \<and> S demo_rt (get_prop body_override (str ''notes'')) = Inr []
      \<and> S demo_rt (get_prop body_override (str ''dateImplemented'')) = Inr []
      \<and> S demo_rt (get_prop body_override (str ''contractExpiration'')) = Inr []
      \<and> str ''ACME'' \<noteq> [] \<and> str ''AI'' \<noteq> [] \<and> str ''TEAMS'' \<noteq> []"
    by (simp add: create_request_def demo_env_def env_or_empty_def body_override_def S_def
          andThen_def trim_examples js_ge_def)
  have c: "computeTIME demo_rt (JNum (Fin 2)) (JNum (Fin 5)) = Inr \<lparr>code = str ''M'', label = str ''Migrate''\<rparr>"
    by (simp add: computeTIME_def andThen_def js_ge_def)
  have raw: "computeTIME demo_rt (get_prop body_override (str ''technicalFit''))
      (get_prop body_override (str ''functionalFit'')) = Inr \<lparr>code = str ''M'', label = str ''Migrate''\<rparr>"
    using c by (simp add: body_override_def)
  from T [THEN conjunct1, THEN mp, OF h] obtain t r where
    t: "computeTIME demo_rt (get_prop body_override (str ''technicalFit''))
          (get_prop body_override (str ''functionalFit'')) = Inr t"
    and r: "r = \<lparr>up_base = strip_slash (env_or_empty demo_env (str ''RESTDB_BASE'')),
             up_segments = [str ''rest'', env_or_empty demo_env (str ''RESTDB_COLLECTION'')],
             up_query = [], up_method = str ''POST'',
             up_apikey = env_or_empty demo_env (str ''RESTDB_API_KEY''),
             up_body = Some (JObj [
               (str ''customerName'', JStr (str ''ACME'')),
               (str ''customerId'', if [] \<noteq> ([] :: jsstring) then JStr [] else JNull),
               (str ''category'', JStr (str ''AI'')),
               (str ''solution'', JStr (str ''TEAMS'')),
               (str ''vendor'', JStr []),
               (str ''notes'', JStr []),
               (str ''technicalFit'', JNum (Fin 2)),
               (str ''functionalFit'', JNum (Fin 5)),
               (str ''timeCode'', JStr (code t)),
               (str ''timeLabel'', JStr (label t)),
               (str ''dateImplemented'', if [] \<noteq> ([] :: jsstring) then JStr [] else JNull),
               (str ''contractExpiration'', if [] \<noteq> ([] :: jsstring) then JStr [] else JNull),
               (str ''createdAt'', JStr (now_iso demo_rt)),
               (str ''updatedAt'', JStr (now_iso demo_rt))])\<rparr>"
    and calls: "fst (fetch demo_rt demo_env (create_request body_override)) = [r]"
    by (elim exE conjE)
  from t raw have "t = \<lparr>code = str ''M'', label = str ''Migrate''\<rparr>"
    by simp
  with r have "r = demo_call"
    by (simp add: demo_call_def demo_doc_def demo_env_def env_or_empty_def demo_strip demo_rt_def)
  with calls have sent: "fst (fetch demo_rt demo_env (create_request body_override)) = [demo_call]"
    by simp
  have k: "\<forall>k. k \<noteq> str ''timeCode'' \<and> k \<noteq> str ''timeLabel'' \<longrightarrow> map_of ?kvs k = map_of ?kvs' k"
    by simp
  from T [THEN conjunct2, THEN conjunct2, THEN mp, OF k]
  have same: "fetch demo_rt demo_env (create_request body_override)
       = fetch demo_rt demo_env (create_request body_plain)"
    by (simp add: create_request_def body_override_def body_plain_def)
  have d: "up_body demo_call = Some demo_doc" "get_prop demo_doc (str ''timeCode'') = JStr (str ''M'')"
    "get_prop demo_doc (str ''timeLabel'') = JStr (str ''Migrate'')"
    by (simp_all add: demo_call_def demo_doc_def)
  from m b sent d c same show ?thesis
    by simp
qed

section \<open>Routing, the token gate and configuration\<close>

text \<open>
  C6 (as amended). In the version of the worker that has the token gate, when
  \<open>APP_SHARED_TOKEN\<close> is set to a non-empty secret, every request whose path starts with
  \<open>/api/items\<close> and whose \<open>x-app-token\<close> header is absent or differs from the secret is
  answered 401 with \<open>{ok: false, error: "Unauthorized"}\<close>, whatever its method and the
  rest of its path; the handler is not called and nothing is sent to the store.
\<close>

theorem token_gate_items_only:
  assumes "env (str ''APP_SHARED_TOKEN'') = Some secret" and "secret \<noteq> []"
    and "startsWith (pathname req) (str ''/api/items'')"
    and "map_of (headers req) (str ''x-app-token'') \<noteq> Some secret"
  shows "fetch_gated handleItems0 rt env req
           = ([], Inr \<lparr>status = 401, payload = JsonBody (JObj [(str ''ok'', JBool False), (str ''error'', JStr (str ''Unauthorized''))])\<rparr>)"
  using assms startsWith_items_not_root [of "pathname req"]
  by (auto simp: fetch_gated_def env_or_empty_def split: option.splits)

theorem token_gate_items_only_witness:
  "token_env (str ''APP_SHARED_TOKEN'') = Some (str ''s3cret'') \<and> str ''s3cret'' \<noteq> []
   \<and> startsWith (pathname ((get_request (str ''/api/items/x1'') [])\<lparr>req_method := str ''PATCH''\<rparr>))
         (str ''/api/items'')
   \<and> map_of (headers ((get_request (str ''/api/items/x1'') [])\<lparr>req_method := str ''PATCH''\<rparr>))
         (str ''x-app-token'') \<noteq> Some (str ''s3cret'')
   \<and> fetch_gated handleItems demo_rt token_env
         ((get_request (str ''/api/items/x1'') [])\<lparr>req_method := str ''PATCH''\<rparr>)
       = ([], Inr \<lparr>status = 401, payload = JsonBody (JObj [(str ''ok'', JBool False), (str ''error'', JStr (str ''Unauthorized''))])\<rparr>)"
proof -
  have h: "token_env (str ''APP_SHARED_TOKEN'') = Some (str ''s3cret'')" "str ''s3cret'' \<noteq> []"
    "startsWith (pathname ((get_request (str ''/api/items/x1'') [])\<lparr>req_method := str ''PATCH''\<rparr>))
         (str ''/api/items'')"
    "map_of (headers ((get_request (str ''/api/items/x1'') [])\<lparr>req_method := str ''PATCH''\<rparr>))
         (str ''x-app-token'') \<noteq> Some (str ''s3cret'')"
    by (simp_all add: token_env_def get_request_def startsWith_def str_def)
  show ?thesis
    using token_gate_items_only [of token_env "str ''s3cret''"
        "(get_request (str ''/api/items/x1'') [])\<lparr>req_method := str ''PATCH''\<rparr>" handleItems demo_rt] h
    by simp
qed

text \<open>
  The claim as stated fails. With the secret set and no header, the gated version answers
  \<open>/api/customers\<close> with the plain 404, not 401; and the version that serves the customer
  summary has no gate: it runs the handler, calls the store and answers 200.
\<close>

theorem token_gate_counterexample:
  "token_env (str ''APP_SHARED_TOKEN'') = Some (str ''s3cret'')
   \<and> map_of (headers (get_request (str ''/api/customers'') [])) (str ''x-app-token'') = None
   \<and> startsWith (pathname (get_request (str ''/api/customers'') [])) (str ''/api/'')
   \<and> fetch_gated handleItems demo_rt token_env (get_request (str ''/api/customers'') [])
       = ([], Inr \<lparr>status = 404, payload = TextBody (str ''Not Found'')\<rparr>)
   \<and> map_of (headers (get_request (str ''/api/items'') [])) (str ''x-app-token'') = None
   \<and> fst (fetch demo_rt token_env (get_request (str ''/api/items'') [])) \<noteq> []
   \<and> snd (fetch demo_rt token_env (get_request (str ''/api/items'') []))
       = Inr \<lparr>status = 200, payload = JsonBody (JObj [(str ''ok'', JBool True), (str ''items'', JArr [])])\<rparr>"
  by (simp add: token_env_def get_request_def customers_path_facts fetch_gated_def
        fetch_items handleItems_def items_path_facts handleItems_GET_def param_def
        restdbFetch_def requireEnv_def demo_defs res_ok_def Let_def trim_examples)

text \<open>
  C8. With \<open>RESTDB_COLLECTION\<close> set and \<open>RESTDB_BASE\<close> and \<open>RESTDB_API_KEY\<close> absent,
  \<open>GET /api/items\<close> ends in the exception thrown by \<open>requireEnv\<close>, not in a response;
  with nothing set, so does \<open>GET /api/customers\<close>.
\<close>

theorem missing_base_is_uncaught:
  "fetch demo_rt collection_only_env (get_request (str ''/api/items'') [])
     = ([], Inl (Error (str ''Missing env vars: RESTDB_BASE, RESTDB_API_KEY'')))
   \<and> fetch demo_rt Map.empty (get_request (str ''/api/customers'') [])
     = ([], Inl (Error (str ''Missing env vars: RESTDB_BASE, RESTDB_COLLECTION, RESTDB_API_KEY'')))"
  by (simp add: collection_only_env_def get_request_def customers_path_facts fetch_def handleApi_def
        handleItems_def items_path_facts handleItems_GET_def param_def handleCustomers_def
        restdbFetch_def requireEnv_def env_or_empty_def Let_def trim_examples str_append)

section \<open>Listing records\<close>

lemma handleItems_list:
  assumes "pathname req = str ''/api/items''" and "req_method req = str ''GET''"
    and "env_or_empty env (str ''RESTDB_COLLECTION'') \<noteq> []"
  shows "handleItems rt env req
           = handleItems_GET rt env req (env_or_empty env (str ''RESTDB_COLLECTION''))"
  using assms by (simp add: handleItems_def items_path_facts Let_def)

lemma filter_entries:
  fixes cn cid cat :: jsstring
  defines "q \<equiv> (if cn \<noteq> [] then [(str ''customerName'', JStr cn)] else [])
            @ (if cn = [] \<and> cid \<noteq> [] then [(str ''customerId'', JStr cid)] else [])
            @ (if cat \<noteq> [] then [(str ''category'', JStr cat)] else [])"
  shows "q = [] \<longleftrightarrow> cn = [] \<and> cat = [] \<and> cid = []"
    and "get_prop (JObj q) (str ''customerName'') = (if cn \<noteq> [] then JStr cn else Undefined)"
    and "get_prop (JObj q) (str ''category'') = (if cat \<noteq> [] then JStr cat else Undefined)"
    and "get_prop (JObj q) (str ''customerId'')
           = (if cn = [] \<and> cid \<noteq> [] then JStr cid else Undefined)"
    and "k \<noteq> str ''customerName'' \<and> k \<noteq> str ''category'' \<and> k \<noteq> str ''customerId''
           \<Longrightarrow> get_prop (JObj q) k = Undefined"
  by (simp_all add: q_def)

lemma handleItems_GET_configured:
  fixes rt :: runtime and env :: env and req :: request and col :: jsstring
  assumes "env_or_empty env (str ''RESTDB_BASE'') \<noteq> []"
    and "env_or_empty env (str ''RESTDB_COLLECTION'') \<noteq> []"
    and "env_or_empty env (str ''RESTDB_API_KEY'') \<noteq> []"
  defines "q \<equiv> (if param req (str ''customerName'') \<noteq> []
                  then [(str ''customerName'', JStr (param req (str ''customerName'')))] else [])
            @ (if param req (str ''customerName'') = [] \<and> param req (str ''customerId'') \<noteq> []
                  then [(str ''customerId'', JStr (param req (str ''customerId'')))] else [])
            @ (if param req (str ''category'') \<noteq> []
                  then [(str ''category'', JStr (param req (str ''category'')))] else [])"
  defines "r \<equiv> \<lparr>up_base = strip_slash (env_or_empty env (str ''RESTDB_BASE'')),
                up_segments = [str ''rest'', col],
                up_query = (if q \<noteq> [] then [(str ''q'', JObj q),
                              (str ''sort'', JObj [(str ''createdAt'', JNum (Fin (- 1)))])]
                            else [(str ''sort'', JObj [(str ''createdAt'', JNum (Fin (- 1)))])]),
                up_method = str ''GET'',
                up_apikey = env_or_empty env (str ''RESTDB_API_KEY''), up_body = None\<rparr>"
  shows "handleItems_GET rt env req col =
     (case global_fetch rt r of
        Inl e \<Rightarrow> ([r], Inl e)
      | Inr res \<Rightarrow>
          (if \<not> res_ok res then ([r], json (JObj [(str ''ok'', JBool False), (str ''error'', response_data rt res)]) (up_status res))
           else ([r], Inr \<lparr>status = 200, payload = JsonBody (JObj [(str ''ok'', JBool True),
                    (str ''items'', (case response_data rt res of JArr xs \<Rightarrow> JArr xs | _ \<Rightarrow> JArr []))])\<rparr>)))"
proof -
  have same: "(case d of JArr xs \<Rightarrow> d | _ \<Rightarrow> JArr []) = (case d of JArr xs \<Rightarrow> JArr xs | _ \<Rightarrow> JArr [])"
    for d
    by (cases d) simp_all
  have sent: "restdbFetch rt env [str ''rest'', col] (up_query r) (str ''GET'') None
      = (case global_fetch rt r of
           Inl e \<Rightarrow> ([r], Inl e)
         | Inr res \<Rightarrow> ([r], Inr (res, response_data rt res)))"
    unfolding restdbFetch_configured [OF assms(1-3)] Let_def r_def
    by (simp only: up_request.simps)
  have "handleItems_GET rt env req col
      = (case restdbFetch rt env [str ''rest'', col] (up_query r) (str ''GET'') None of
           (calls, Inl e) \<Rightarrow> (calls, Inl e)
         | (calls, Inr (res, data)) \<Rightarrow>
             (if \<not> res_ok res then (calls, json (JObj [(str ''ok'', JBool False), (str ''error'', data)]) (up_status res))
              else (calls, Inr \<lparr>status = 200, payload = JsonBody (JObj [(str ''ok'', JBool True),
                       (str ''items'', (case data of JArr xs \<Rightarrow> data | _ \<Rightarrow> JArr []))])\<rparr>)))"
    unfolding handleItems_GET_def Let_def r_def q_def
    by (simp only: up_request.simps json_fixed)
  then show ?thesis
    unfolding sent by (cases "global_fetch rt r") (simp_all only: same sum.case prod.case)
qed

text \<open>
  C9 (as amended). For \<open>GET /api/items\<close> with the three bindings configured, one request
  is sent to the store: a \<open>GET\<close> of the collection with the sort descriptor
  \<open>{createdAt: -1}\<close>. It has no filter exactly when the trimmed \<open>customerName\<close>,
  \<open>category\<close> and \<open>customerId\<close> parameters are all empty. Otherwise the filter has an
  entry for \<open>customerName\<close> exactly when that parameter is non-empty after trimming, one
  for \<open>category\<close> likewise, a \<open>customerId\<close> entry exactly when \<open>customerName\<close> is empty
  and \<open>customerId\<close> is not, and no other entry. When the store answers 2xx the response
  is 200 with \<open>{ok: true, items}\<close>, the items being the store's data when it is an array
  and the empty array otherwise; an empty body is \<open>null\<close>, not an array.
\<close>

theorem list_filter_and_result:
  assumes "pathname req = str ''/api/items''" and "req_method req = str ''GET''"
    and "env_or_empty env (str ''RESTDB_BASE'') \<noteq> []"
    and "env_or_empty env (str ''RESTDB_COLLECTION'') \<noteq> []"
    and "env_or_empty env (str ''RESTDB_API_KEY'') \<noteq> []"
  shows "\<exists>r. fst (fetch rt env req) = [r]
           \<and> up_method r = str ''GET'' \<and> up_body r = None
           \<and> up_segments r = [str ''rest'', env_or_empty env (str ''RESTDB_COLLECTION'')]
           \<and> map_of (up_query r) (str ''sort'') = Some (JObj [(str ''createdAt'', JNum (Fin (- 1)))])
           \<and> (map_of (up_query r) (str ''q'') = None \<longleftrightarrow>
                 param req (str ''customerName'') = [] \<and> param req (str ''category'') = []
                 \<and> param req (str ''customerId'') = [])
           \<and> (\<forall>f. map_of (up_query r) (str ''q'') = Some f \<longrightarrow>
                 get_prop f (str ''customerName'')
                   = (if param req (str ''customerName'') \<noteq> []
                      then JStr (param req (str ''customerName'')) else Undefined)
               \<and> get_prop f (str ''category'')
                   = (if param req (str ''category'') \<noteq> []
                      then JStr (param req (str ''category'')) else Undefined)
               \<and> get_prop f (str ''customerId'')
                   = (if param req (str ''customerName'') = [] \<and> param req (str ''customerId'') \<noteq> []
                      then JStr (param req (str ''customerId'')) else Undefined)
               \<and> (\<forall>k. k \<noteq> str ''customerName'' \<and> k \<noteq> str ''category'' \<and> k \<noteq> str ''customerId''
                      \<longrightarrow> get_prop f k = Undefined))
           \<and> (\<forall>res. global_fetch rt r = Inr res \<and> res_ok res \<longrightarrow>
                 snd (fetch rt env req)
                   = Inr \<lparr>status = 200, payload = JsonBody (JObj [(str ''ok'', JBool True),
                        (str ''items'', (case response_data rt res of JArr xs \<Rightarrow> JArr xs | _ \<Rightarrow> JArr []))])\<rparr>)
           \<and> (\<forall>res. up_text res = Some [] \<longrightarrow> response_data rt res = JNull)"
proof -
  let ?col = "env_or_empty env (str ''RESTDB_COLLECTION'')"
  let ?cn = "param req (str ''customerName'')"
  let ?cid = "param req (str ''customerId'')"
  let ?cat = "param req (str ''category'')"
  let ?sort = "JObj [(str ''createdAt'', JNum (Fin (- 1)))]"
  define q where "q = (if ?cn \<noteq> [] then [(str ''customerName'', JStr ?cn)] else [])
            @ (if ?cn = [] \<and> ?cid \<noteq> [] then [(str ''customerId'', JStr ?cid)] else [])
            @ (if ?cat \<noteq> [] then [(str ''category'', JStr ?cat)] else [])"
  define r where "r = \<lparr>up_base = strip_slash (env_or_empty env (str ''RESTDB_BASE'')),
                up_segments = [str ''rest'', ?col],
                up_query = (if q \<noteq> [] then [(str ''q'', JObj q), (str ''sort'', ?sort)]
                            else [(str ''sort'', ?sort)]),
                up_method = str ''GET'',
                up_apikey = env_or_empty env (str ''RESTDB_API_KEY''), up_body = None\<rparr>"
  have list: "fetch rt env req = handleItems_GET rt env req ?col"
    using assms(1,2,4) by (simp add: fetch_items handleItems_list)
  have run: "fetch rt env req =
     (case global_fetch rt r of
        Inl e \<Rightarrow> ([r], Inl e)
      | Inr res \<Rightarrow>
          (if \<not> res_ok res then ([r], json (JObj [(str ''ok'', JBool False), (str ''error'', response_data rt res)]) (up_status res))
           else ([r], Inr \<lparr>status = 200, payload = JsonBody (JObj [(str ''ok'', JBool True),
                    (str ''items'', (case response_data rt res of JArr xs \<Rightarrow> JArr xs | _ \<Rightarrow> JArr []))])\<rparr>)))"
    unfolding list r_def q_def by (rule handleItems_GET_configured [OF assms(3-5)])
  have calls: "fst (fetch rt env req) = [r]"
    unfolding run by (cases "global_fetch rt r") simp_all
  have result: "snd (fetch rt env req)
      = Inr \<lparr>status = 200, payload = JsonBody (JObj [(str ''ok'', JBool True),
           (str ''items'', (case response_data rt res of JArr xs \<Rightarrow> JArr xs | _ \<Rightarrow> JArr []))])\<rparr>"
    if "global_fetch rt r = Inr res" and "res_ok res" for res
    unfolding run using that by simp
  have fields: "up_method r = str ''GET''" "up_body r = None" "up_segments r = [str ''rest'', ?col]"
    by (simp_all add: r_def)
  have query: "up_query r = (if q \<noteq> [] then [(str ''q'', JObj q), (str ''sort'', ?sort)]
                            else [(str ''sort'', ?sort)])"
    by (simp add: r_def)
  have sort: "map_of (up_query r) (str ''sort'') = Some ?sort"
    unfolding query by simp
  have absent: "map_of (up_query r) (str ''q'') = None \<longleftrightarrow> ?cn = [] \<and> ?cat = [] \<and> ?cid = []"
    unfolding query using filter_entries(1) [where cn = ?cn and cid = ?cid and cat = ?cat] by (simp add: q_def)
  have present: "get_prop f (str ''customerName'') = (if ?cn \<noteq> [] then JStr ?cn else Undefined)
               \<and> get_prop f (str ''category'') = (if ?cat \<noteq> [] then JStr ?cat else Undefined)
               \<and> get_prop f (str ''customerId'')
                   = (if ?cn = [] \<and> ?cid \<noteq> [] then JStr ?cid else Undefined)
               \<and> (\<forall>k. k \<noteq> str ''customerName'' \<and> k \<noteq> str ''category'' \<and> k \<noteq> str ''customerId''
                      \<longrightarrow> get_prop f k = Undefined)"
    if "map_of (up_query r) (str ''q'') = Some f" for f
  proof -
    from that have "f = JObj q"
      unfolding query by (simp split: if_splits)
    then show ?thesis
      unfolding q_def
      using filter_entries(2-5) [where cn = ?cn and cid = ?cid and cat = ?cat] by blast
  qed
  have empty: "response_data rt res = JNull" if "up_text res = Some []" for res
    using that by (simp add: response_data_def)
  show ?thesis
  proof (intro exI [of _ r] conjI allI impI)
    fix f
    assume "map_of (up_query r) (str ''q'') = Some f"
    note p = present [OF this]
    show "get_prop f (str ''customerName'') = (if ?cn \<noteq> [] then JStr ?cn else Undefined)"
      and "get_prop f (str ''category'') = (if ?cat \<noteq> [] then JStr ?cat else Undefined)"
      and "get_prop f (str ''customerId'')
             = (if ?cn = [] \<and> ?cid \<noteq> [] then JStr ?cid else Undefined)"
      using p by simp_all
    fix k
    assume "k \<noteq> str ''customerName'' \<and> k \<noteq> str ''category'' \<and> k \<noteq> str ''customerId''"
    then show "get_prop f k = Undefined"
      using p by simp
  next
    fix res :: up_response
    assume "global_fetch rt r = Inr res \<and> res_ok res"
    then show "snd (fetch rt env req)
      = Inr \<lparr>status = 200, payload = JsonBody (JObj [(str ''ok'', JBool True),
           (str ''items'', (case response_data rt res of JArr xs \<Rightarrow> JArr xs | _ \<Rightarrow> JArr []))])\<rparr>"
      using result by simp
  next
    fix res :: up_response
    assume "up_text res = Some []"
    then show "response_data rt res = JNull"
      by (rule empty)
  qed (simp_all only: calls fields sort absent)
qed

theorem list_filter_and_result_witness:
  "pathname (get_request (str ''/api/items'') [(str ''customerName'', str '' ACME ''), (str ''category'', str ''AI'')])
     = str ''/api/items''
   \<and> req_method (get_request (str ''/api/items'') [(str ''customerName'', str '' ACME ''), (str ''category'', str ''AI'')])
     = str ''GET''
   \<and> env_or_empty demo_env (str ''RESTDB_BASE'') \<noteq> []
   \<and> env_or_empty demo_env (str ''RESTDB_COLLECTION'') \<noteq> []
   \<and> env_or_empty demo_env (str ''RESTDB_API_KEY'') \<noteq> []
   \<and> param (get_request (str ''/api/items'') [(str ''customerName'', str '' ACME ''), (str ''category'', str ''AI'')])
        (str ''customerName'') = str ''ACME''
   \<and> (\<exists>r. fst (fetch demo_rt demo_env
          (get_request (str ''/api/items'') [(str ''customerName'', str '' ACME ''), (str ''category'', str ''AI'')])) = [r]
        \<and> map_of (up_query r) (str ''sort'') = Some (JObj [(str ''createdAt'', JNum (Fin (- 1)))])
        \<and> map_of (up_query r) (str ''q'') \<noteq> None
        \<and> (\<forall>f. map_of (up_query r) (str ''q'') = Some f \<longrightarrow>
              get_prop f (str ''customerName'') = JStr (str ''ACME'')
            \<and> get_prop f (str ''category'') = JStr (str ''AI'')
            \<and> get_prop f (str ''customerId'') = Undefined))"
proof -
  let ?req = "get_request (str ''/api/items'') [(str ''customerName'', str '' ACME ''), (str ''category'', str ''AI'')]"
  have h: "pathname ?req = str ''/api/items''" "req_method ?req = str ''GET''"
    "env_or_empty demo_env (str ''RESTDB_BASE'') \<noteq> []"
    "env_or_empty demo_env (str ''RESTDB_COLLECTION'') \<noteq> []"
    "env_or_empty demo_env (str ''RESTDB_API_KEY'') \<noteq> []"
    by (simp_all add: get_request_def demo_defs)
  have p: "param ?req (str ''customerName'') = str ''ACME''" "param ?req (str ''category'') = str ''AI''"
    "param ?req (str ''customerId'') = []"
    by (simp_all add: param_def get_request_def trim_examples)
  show ?thesis
    using list_filter_and_result [OF h, of demo_rt] h p(1)
    apply (elim exE conjE)
    apply (intro conjI; (assumption)?)
    apply (rule_tac x = r in exI)
    apply (simp add: p)
    done
qed

text \<open>
  The claim as stated fails: with only the legacy \<open>customerId\<close> parameter given, neither
  \<open>customerName\<close> nor \<open>category\<close> is present and yet the request carries a filter.
\<close>

theorem list_filter_counterexample:
  "map_of (searchParams (get_request (str ''/api/items'') [(str ''customerId'', str ''C42'')]))
       (str ''customerName'') = None
   \<and> map_of (searchParams (get_request (str ''/api/items'') [(str ''customerId'', str ''C42'')]))
       (str ''category'') = None
   \<and> fst (fetch demo_rt demo_env (get_request (str ''/api/items'') [(str ''customerId'', str ''C42'')]))
       = [legacy_call]
   \<and> map_of (up_query legacy_call) (str ''q'') = Some (JObj [(str ''customerId'', JStr (str ''C42''))])"
  by (simp add: get_request_def fetch_items handleItems_def items_path_facts handleItems_GET_def
        param_def restdbFetch_def requireEnv_def demo_defs demo_strip legacy_call_def res_ok_def
        Let_def trim_examples)

section \<open>Properties of the customer summary\<close>

lemma map_of_map_set: "map_of (map_set m k v) = (map_of m)(k \<mapsto> v)"
  by (induction m) (auto simp: fun_eq_iff)

lemma keys_map_set: "fst ` set (map_set m k v) = insert k (fst ` set m)"
proof (induction m)
  case Nil
  then show ?case by simp
next
  case (Cons p m)
  then show ?case
    by (cases p) (simp add: insert_commute)
qed

lemma distinct_map_set: "distinct (map fst m) \<Longrightarrow> distinct (map fst (map_set m k v))"
proof (induction m)
  case Nil
  then show ?case by simp
next
  case (Cons p m)
  then show ?case
    by (cases p) (auto simp: keys_map_set)
qed

lemma count_names_distinct:
  "distinct (map fst m) \<Longrightarrow> count_names rt items m = Inr m' \<Longrightarrow> distinct (map fst m')"
proof (induction items arbitrary: m)
  case Nil
  then show ?case by simp
next
  case (Cons it items)
  then show ?case
    by (auto split: sum.splits if_splits intro: distinct_map_set)
qed

lemma count_names_map_of:
  "count_names rt items m = Inr m' \<Longrightarrow>
     map_of m' n =
       (if (n \<noteq> [] \<and> (\<exists>it\<in>set items. item_name rt it = Inr n)) \<or> map_of m n \<noteq> None
        then Some ((case map_of m n of None \<Rightarrow> 0 | Some c \<Rightarrow> c)
                   + (if n = [] then 0 else length (filter (\<lambda>it. item_name rt it = Inr n) items)))
        else None)"
proof (induction items arbitrary: m)
  case Nil
  then show ?case by (auto split: option.splits)
next
  case (Cons it items)
  show ?case
  proof (cases "item_name rt it")
    case (Inl e)
    with Cons.prems show ?thesis by simp
  next
    case (Inr name)
    show ?thesis
    proof (cases "name = []")
      case True
      with Inr Cons.prems have "count_names rt items m = Inr m'" by simp
      from Cons.IH [OF this] show ?thesis
        using Inr True by auto
    next
      case False
      let ?m = "map_set m name ((case map_of m name of None \<Rightarrow> 0 | Some c \<Rightarrow> c) + 1)"
      from Inr False Cons.prems have "count_names rt items ?m = Inr m'" by simp
      from Cons.IH [OF this] show ?thesis
        using Inr False by (auto simp: map_of_map_set split: option.splits)
    qed
  qed
qed

lemma count_names_total:
  "\<forall>it\<in>set items. \<exists>n. item_name rt it = Inr n \<Longrightarrow> \<exists>m'. count_names rt items m = Inr m'"
  by (induction items arbitrary: m) auto

lemma set_js_insert: "set (js_insert cmp x ys) = insert x (set ys)"
  by (induction ys) auto

lemma set_js_sort: "set (js_sort cmp xs) = set xs"
  by (induction xs) (auto simp: js_sort_def set_js_insert)

lemma distinct_map_js_insert:
  "distinct (map f (js_insert cmp x ys)) \<longleftrightarrow> f x \<notin> f ` set ys \<and> distinct (map f ys)"
  by (induction ys) (auto simp: set_js_insert)

lemma distinct_map_js_sort: "distinct (map f (js_sort cmp xs)) \<longleftrightarrow> distinct (map f xs)"
  by (induction xs) (auto simp: js_sort_def distinct_map_js_insert set_js_sort [unfolded js_sort_def])

lemma sorted_js_insert:
  assumes total: "\<And>a b. cmp a b \<le> 0 \<or> cmp b a \<le> 0"
    and trans: "\<And>a b c. cmp a b \<le> 0 \<Longrightarrow> cmp b c \<le> 0 \<Longrightarrow> cmp a c \<le> 0"
  shows "sorted_wrt (\<lambda>a b. cmp a b \<le> 0) ys \<Longrightarrow> sorted_wrt (\<lambda>a b. cmp a b \<le> 0) (js_insert cmp x ys)"
proof (induction ys)
  case Nil
  then show ?case by simp
next
  case (Cons y ys)
  show ?case
  proof (cases "cmp x y \<le> 0")
    case True
    with Cons.prems trans show ?thesis by auto
  next
    case False
    with total have "cmp y x \<le> 0" by blast
    with False Cons show ?thesis
      by (auto simp: set_js_insert)
  qed
qed

lemma sorted_js_sort:
  assumes "\<And>a b. cmp a b \<le> 0 \<or> cmp b a \<le> 0"
    and "\<And>a b c. cmp a b \<le> 0 \<Longrightarrow> cmp b c \<le> 0 \<Longrightarrow> cmp a c \<le> 0"
  shows "sorted_wrt (\<lambda>a b. cmp a b \<le> 0) (js_sort cmp xs)"
  by (induction xs) (auto simp: js_sort_def intro: sorted_js_insert [OF assms])

lemma demo_compare_total: "demo_compare a b \<le> 0 \<or> demo_compare b a \<le> 0"
proof -
  have "(a, b) \<in> lexord {(x, y). x < y} \<or> a = b \<or> (b, a) \<in> lexord {(x :: nat, y). x < y}"
    by (rule lexord_linear) auto
  then show ?thesis
    by (auto simp: demo_compare_def)
qed

lemma demo_compare_trans:
  "demo_compare a b \<le> 0 \<Longrightarrow> demo_compare b c \<le> 0 \<Longrightarrow> demo_compare a c \<le> 0"
proof -
  have t: "trans {(x :: nat, y). x < y}"
    by (auto simp: trans_def)
  assume "demo_compare a b \<le> 0" and "demo_compare b c \<le> 0"
  then have "a = b \<or> (a, b) \<in> lexord {(x, y). x < y}" and "b = c \<or> (b, c) \<in> lexord {(x, y). x < y}"
    by (auto simp: demo_compare_def split: if_splits)
  then have "a = c \<or> (a, c) \<in> lexord {(x, y). x < y}"
    using lexord_trans [OF _ _ t] by blast
  then show ?thesis
    by (auto simp: demo_compare_def)
qed

text \<open>
  The records that the worker itself stores carry a non-empty string as customer name, so
  their names convert.
\<close>

lemma created_name_is_string:
  assumes "req_method req = str ''POST''" and "r \<in> set (fst (fetch rt env req))"
  shows "\<exists>doc s. up_body r = Some doc \<and> get_prop doc (str ''customerName'') = JStr s \<and> s \<noteq> []
           \<and> item_name rt doc = Inr (trim s)"
proof -
  from assms have "r \<in> set (fst (handleItems_POST rt env req (env_or_empty env (str ''RESTDB_COLLECTION''))))"
    by (rule post_calls_are_create)
  then obtain doc s where "up_body r = Some doc" "get_prop doc (str ''customerName'') = JStr s" "s \<noteq> []"
    by (auto simp: handleItems_POST_def orThrow_def Let_def
          split: sum.splits prod.splits if_splits dest!: restdbFetch_calls)
  moreover from this have "item_name rt doc = Inr (trim s)"
    by (cases doc) (auto simp: item_name_def andThen_def split: option.splits)
  ultimately show ?thesis by blast
qed

text \<open>
  C7. For \<open>GET /api/customers\<close>, when the store answers 2xx with an array of records
  whose names convert to strings, and \<open>localeCompare\<close> is a consistent comparison (total
  and transitive), the response is 200 with a \<open>customers\<close> array in which: no name occurs
  twice; the names are exactly the non-empty trimmed names of the records; each count is
  the number of records with that trimmed name; and the names are in ascending order of
  \<open>localeCompare\<close>. A record without a name, or with an empty one, has the empty trimmed
  name and is not counted.
\<close>

theorem customers_aggregate:
  assumes "pathname req = str ''/api/customers''" and "req_method req = str ''GET''"
    and "restdbFetch rt env [str ''rest'', env_or_empty env (str ''RESTDB_COLLECTION'')]
           [(str ''fields'', JObj [(str ''customerName'', JNum (Fin 1))]),
            (str ''sort'', JObj [(str ''customerName'', JNum (Fin 1))])] (str ''GET'') None
         = (calls, Inr (res, JArr items))"
    and "res_ok res"
    and "\<forall>it\<in>set items. \<exists>n. item_name rt it = Inr n"
    and "\<forall>a b. localeCompare rt a b \<le> 0 \<or> localeCompare rt b a \<le> 0"
    and "\<forall>a b c. localeCompare rt a b \<le> 0 \<and> localeCompare rt b c \<le> 0 \<longrightarrow> localeCompare rt a c \<le> 0"
  shows "(\<exists>cs. fetch rt env req
              = (calls, Inr \<lparr>status = 200, payload = JsonBody (JObj [(str ''ok'', JBool True),
                   (str ''customers'', JArr (map (\<lambda>c. JObj [(str ''customerName'', JStr (fst c)),
                     (str ''count'', JNum (Fin (of_nat (snd c))))]) cs))])\<rparr>)
           \<and> distinct (map fst cs)
           \<and> fst ` set cs = {n. n \<noteq> [] \<and> (\<exists>it\<in>set items. item_name rt it = Inr n)}
           \<and> (\<forall>n c. (n, c) \<in> set cs \<longrightarrow> c = length (filter (\<lambda>it. item_name rt it = Inr n) items))
           \<and> sorted_wrt (\<lambda>a b. localeCompare rt a b \<le> 0) (map fst cs))
       \<and> (\<forall>kvs. map_of kvs (str ''customerName'') = None \<longrightarrow> item_name rt (JObj kvs) = Inr [])
       \<and> (\<forall>kvs s. map_of kvs (str ''customerName'') = Some (JStr s) \<longrightarrow>
              item_name rt (JObj kvs) = Inr (trim s))"
proof -
  let ?cmp = "\<lambda>a b. localeCompare rt (fst a) (fst b)"
  obtain m where m: "count_names rt items [] = Inr m"
    using count_names_total [OF assms(5)] by blast
  define cs :: "(jsstring \<times> nat) list" where "cs = js_sort ?cmp m"
  have route: "fetch rt env req = handleCustomers rt env req"
    using assms(1) by (simp add: fetch_def handleApi_def customers_path_facts)
  have out: "fetch rt env req
              = (calls, Inr \<lparr>status = 200, payload = JsonBody (JObj [(str ''ok'', JBool True),
                   (str ''customers'', JArr (map (\<lambda>c. JObj [(str ''customerName'', JStr (fst c)),
                     (str ''count'', JNum (Fin (of_nat (snd c))))]) cs))])\<rparr>)"
    unfolding route using assms(2-4) m by (simp add: handleCustomers_def cs_def)
  have dm: "distinct (map fst m)"
    using count_names_distinct [OF _ m] by simp
  then have d: "distinct (map fst cs)"
    by (simp add: cs_def distinct_map_js_sort)
  have look: "map_of m n =
       (if n \<noteq> [] \<and> (\<exists>it\<in>set items. item_name rt it = Inr n)
        then Some (length (filter (\<lambda>it. item_name rt it = Inr n) items)) else None)" for n
    using count_names_map_of [OF m, of n] by simp
  have "fst ` set m = {n. n \<noteq> [] \<and> (\<exists>it\<in>set items. item_name rt it = Inr n)}"
    unfolding dom_map_of_conv_image_fst [symmetric] by (auto simp: look dom_def)
  then have s: "fst ` set cs = {n. n \<noteq> [] \<and> (\<exists>it\<in>set items. item_name rt it = Inr n)}"
    by (simp add: cs_def set_js_sort)
  have c: "c = length (filter (\<lambda>it. item_name rt it = Inr n) items)" if "(n, c) \<in> set cs" for n c
  proof -
    from that have "(n, c) \<in> set m"
      by (simp add: cs_def set_js_sort)
    with dm have "map_of m n = Some c"
      by simp
    then show ?thesis
      by (simp add: look split: if_splits)
  qed
  have "sorted_wrt (\<lambda>a b. ?cmp a b \<le> 0) cs"
    unfolding cs_def using assms(6,7) by (intro sorted_js_sort) blast+
  then have o: "sorted_wrt (\<lambda>a b. localeCompare rt a b \<le> 0) (map fst cs)"
    by (simp add: sorted_wrt_map)
  have absent: "item_name rt (JObj kvs) = Inr []" if "map_of kvs (str ''customerName'') = None" for kvs
    using that by (simp add: item_name_def)
  have named: "item_name rt (JObj kvs) = Inr (trim s)"
    if "map_of kvs (str ''customerName'') = Some (JStr s)" for kvs s
    using that by (simp add: item_name_def andThen_def trim_def)
  from out d s c o have "\<exists>cs. fetch rt env req
              = (calls, Inr \<lparr>status = 200, payload = JsonBody (JObj [(str ''ok'', JBool True),
                   (str ''customers'', JArr (map (\<lambda>c. JObj [(str ''customerName'', JStr (fst c)),
                     (str ''count'', JNum (Fin (of_nat (snd c))))]) cs))])\<rparr>)
           \<and> distinct (map fst cs)
           \<and> fst ` set cs = {n. n \<noteq> [] \<and> (\<exists>it\<in>set items. item_name rt it = Inr n)}
           \<and> (\<forall>n c. (n, c) \<in> set cs \<longrightarrow> c = length (filter (\<lambda>it. item_name rt it = Inr n) items))
           \<and> sorted_wrt (\<lambda>a b. localeCompare rt a b \<le> 0) (map fst cs)"
    by blast
  with absent named show ?thesis
    by simp
qed

theorem customers_aggregate_witness:
  "pathname (get_request (str ''/api/customers'') []) = str ''/api/customers''
   \<and> req_method (get_request (str ''/api/customers'') []) = str ''GET''
   \<and> restdbFetch demo_rt demo_env [str ''rest'', env_or_empty demo_env (str ''RESTDB_COLLECTION'')]
           [(str ''fields'', JObj [(str ''customerName'', JNum (Fin 1))]),
            (str ''sort'', JObj [(str ''customerName'', JNum (Fin 1))])] (str ''GET'') None
         = ([customers_call], Inr (customers_answer, JArr stored_items))
   \<and> res_ok customers_answer
   \<and> map (item_name demo_rt) stored_items
         = [Inr (str ''BETA''), Inr (str ''ACME''), Inr (str ''BETA''), Inr []]
   \<and> (\<exists>cs. fetch demo_rt demo_env (get_request (str ''/api/customers'') [])
              = ([customers_call], Inr \<lparr>status = 200, payload = JsonBody (JObj [(str ''ok'', JBool True),
                   (str ''customers'', JArr (map (\<lambda>c. JObj [(str ''customerName'', JStr (fst c)),
                     (str ''count'', JNum (Fin (of_nat (snd c))))]) cs))])\<rparr>)
           \<and> distinct (map fst cs)
           \<and> fst ` set cs = {n. n \<noteq> [] \<and> (\<exists>it\<in>set stored_items. item_name demo_rt it = Inr n)}
           \<and> (\<forall>n c. (n, c) \<in> set cs \<longrightarrow>
                 c = length (filter (\<lambda>it. item_name demo_rt it = Inr n) stored_items))
           \<and> sorted_wrt (\<lambda>a b. localeCompare demo_rt a b \<le> 0) (map fst cs))"
proof -
  have h1: "pathname (get_request (str ''/api/customers'') []) = str ''/api/customers''"
    and h2: "req_method (get_request (str ''/api/customers'') []) = str ''GET''"
    by (simp_all add: get_request_def)
  have h3: "restdbFetch demo_rt demo_env [str ''rest'', env_or_empty demo_env (str ''RESTDB_COLLECTION'')]
           [(str ''fields'', JObj [(str ''customerName'', JNum (Fin 1))]),
            (str ''sort'', JObj [(str ''customerName'', JNum (Fin 1))])] (str ''GET'') None
         = ([customers_call], Inr (customers_answer, JArr stored_items))"
    by (simp add: restdbFetch_def requireEnv_def demo_defs demo_strip customers_call_def
          customers_query_def customers_answer_def stored_items_def Let_def)
  have h4: "res_ok customers_answer"
    by (simp add: res_ok_def customers_answer_def)
  have h5: "\<forall>it\<in>set stored_items. \<exists>n. item_name demo_rt it = Inr n"
    by (simp add: stored_items_def item_name_def andThen_def)
  have h6: "\<forall>a b. localeCompare demo_rt a b \<le> 0 \<or> localeCompare demo_rt b a \<le> 0"
    by (simp add: demo_rt_def demo_compare_total)
  have h7: "\<forall>a b c. localeCompare demo_rt a b \<le> 0 \<and> localeCompare demo_rt b c \<le> 0
          \<longrightarrow> localeCompare demo_rt a c \<le> 0"
    using demo_compare_trans by (auto simp: demo_rt_def)
  have names: "map (item_name demo_rt) stored_items
         = [Inr (str ''BETA''), Inr (str ''ACME''), Inr (str ''BETA''), Inr []]"
    by (simp add: stored_items_def item_name_def andThen_def trim_examples)
  from customers_aggregate [OF h1 h2 h3 h4 h5 h6 h7, THEN conjunct1] h1 h2 h3 h4 names
  show ?thesis
    by blast
qed

text \<open>On the example store the summary is ACME with 1 record and BETA with 2.\<close>

lemma customers_example:
  "fetch demo_rt demo_env (get_request (str ''/api/customers'') [])
     = ([customers_call], Inr \<lparr>status = 200, payload = JsonBody (JObj [(str ''ok'', JBool True),
          (str ''customers'', JArr [JObj [(str ''customerName'', JStr (str ''ACME'')), (str ''count'', JNum (Fin 1))],
                JObj [(str ''customerName'', JStr (str ''BETA'')), (str ''count'', JNum (Fin 2))]])])\<rparr>)"
proof -
  have n: "count_names demo_rt stored_items [] = Inr [(str ''BETA'', 2), (str ''ACME'', 1)]"
    by (simp add: stored_items_def item_name_def andThen_def trim_examples)
  have c: "demo_compare (str ''ACME'') (str ''BETA'') \<le> 0" "\<not> demo_compare (str ''BETA'') (str ''ACME'') \<le> 0"
    by (simp_all add: demo_compare_def str_def)
  have s: "js_sort (\<lambda>a b. localeCompare demo_rt (fst a) (fst b)) [(str ''BETA'', 2 :: nat), (str ''ACME'', 1)]
      = [(str ''ACME'', 1), (str ''BETA'', 2)]"
    using c by (simp add: js_sort_def demo_rt_def)
  have f: "restdbFetch demo_rt demo_env [str ''rest'', env_or_empty demo_env (str ''RESTDB_COLLECTION'')]
           [(str ''fields'', JObj [(str ''customerName'', JNum (Fin 1))]),
            (str ''sort'', JObj [(str ''customerName'', JNum (Fin 1))])] (str ''GET'') None
         = ([customers_call], Inr (customers_answer, JArr stored_items))"
    by (simp add: restdbFetch_def requireEnv_def demo_defs demo_strip customers_call_def
          customers_query_def customers_answer_def stored_items_def Let_def)
  have r: "res_ok customers_answer"
    by (simp add: res_ok_def customers_answer_def)
  show ?thesis
    using s
    by (simp add: fetch_def handleApi_def customers_path_facts get_request_def
          handleCustomers_def f r n)
qed

end
